theory Spec2Isabelle
  imports Complex_Main "HOL-Library.Sublist"
begin

section \<open>Bearer-token authentication of store/auth.py\<close>

text \<open>
  A shallow embedding of \<^verbatim>\<open>OIDCAuthentication\<close> (store/auth.py). Each method is a
  function that takes the state it reads and returns the state it leaves together with
  its result; a raised exception is the \<open>Inl\<close> branch of a sum.

  What lies outside the repository is a parameter of the model:
  \<^item> the python-jose calls (\<^verbatim>\<open>jwt.get_unverified_header\<close>, \<^verbatim>\<open>jwk.construct\<close>,
    \<^verbatim>\<open>jwt.decode\<close>) are the fields of a record \<open>jose\<close>;
  \<^item> the network is a function from the requested URL and the number of requests made
    before to the outcome of \<^verbatim>\<open>requests.get\<close>, \<^verbatim>\<open>raise_for_status\<close> and \<^verbatim>\<open>json\<close>;
  \<^item> the readings of \<^verbatim>\<open>time.time()\<close> are arguments (one per call of \<open>get_jwks\<close>);
  \<^item> the environment variables and the class attribute \<^verbatim>\<open>CACHE_TTL\<close> are a record.

  The token header and the entries of the key set are association lists with string
  values. The token payload is an association list of JSON values. The customer table
  is a list of rows with the NOT NULL columns of store/models.py: an INSERT or UPDATE
  that would put NULL into one of them raises IntegrityError.
\<close>

subsection \<open>Exceptions\<close>

datatype exn =
    AuthenticationFailed string
  | JWTError string
  | ExpiredSignatureError string
  | JWTClaimsError string
  | RequestException string
  | OtherException string

text \<open>\<^verbatim>\<open>str(e)\<close>: the message of the exception (the detail of an AuthenticationFailed).\<close>

fun str :: "exn \<Rightarrow> string" where
  "str (AuthenticationFailed m) = m"
| "str (JWTError m) = m"
| "str (ExpiredSignatureError m) = m"
| "str (JWTClaimsError m) = m"
| "str (RequestException m) = m"
| "str (OtherException m) = m"

text \<open>
  \<^verbatim>\<open>except JWTError\<close> also catches the two subclasses python-jose derives from it.
\<close>

fun is_JWTError :: "exn \<Rightarrow> bool" where
  "is_JWTError (JWTError m) = True"
| "is_JWTError (ExpiredSignatureError m) = True"
| "is_JWTError (JWTClaimsError m) = True"
| "is_JWTError e = False"

fun is_AuthenticationFailed :: "exn \<Rightarrow> bool" where
  "is_AuthenticationFailed (AuthenticationFailed m) = True"
| "is_AuthenticationFailed e = False"

subsection \<open>Strings and bytes\<close>

type_synonym dict = "(string \<times> string) list"

text \<open>\<^verbatim>\<open>not s\<close> for a value that is a string or None.\<close>

fun falsy :: "string option \<Rightarrow> bool" where
  "falsy None = True"
| "falsy (Some s) = (s = [])"

text \<open>
  A value of the token payload, as this module and Django observe it: JSON null
  (Python's None), a string, or any other value (a number, a boolean, an array or an
  object), of which only the truth value and the \<^verbatim>\<open>str()\<close> rendering are used.
\<close>

datatype json = JNull | JString string | JOther bool string

type_synonym claims = "(string \<times> json) list"

text \<open>\<^verbatim>\<open>bool(v)\<close>: None and the empty string are false.\<close>

fun truthy :: "json \<Rightarrow> bool" where
  "truthy JNull = False"
| "truthy (JString s) = (s \<noteq> [])"
| "truthy (JOther b s) = b"

text \<open>
  \<^verbatim>\<open>payload.get(k)\<close>: None for a missing member, and the value of a present one
  (None for a member that is JSON null).
\<close>

definition get :: "claims \<Rightarrow> string \<Rightarrow> json" where
  "get payload k = (case map_of payload k of None \<Rightarrow> JNull | Some v \<Rightarrow> v)"

text \<open>
  \<^verbatim>\<open>payload.get(k, '')\<close>: the default replaces a missing member only; a member that
  is present with the value null gives None.
\<close>

definition get_default :: "claims \<Rightarrow> string \<Rightarrow> json" where
  "get_default payload k = (case map_of payload k of None \<Rightarrow> JString [] | Some v \<Rightarrow> v)"

text \<open>\<^verbatim>\<open>sub in s\<close> on strings.\<close>

fun contains :: "string \<Rightarrow> string \<Rightarrow> bool" where
  "contains [] sub = (sub = [])"
| "contains (c # cs) sub = (prefix sub (c # cs) \<or> contains cs sub)"

text \<open>\<^verbatim>\<open>s.endswith(t)\<close>.\<close>

definition endswith :: "string \<Rightarrow> string \<Rightarrow> bool" where
  "endswith s t = prefix (rev t) (rev s)"

text \<open>\<^verbatim>\<open>lower()\<close>: the ASCII letters A to Z are mapped to a to z.\<close>

definition lower_char :: "char \<Rightarrow> char" where
  "lower_char c =
     (case map_of (zip ''ABCDEFGHIJKLMNOPQRSTUVWXYZ'' ''abcdefghijklmnopqrstuvwxyz'') c of
        Some l \<Rightarrow> l
      | None \<Rightarrow> c)"

definition lower :: "string \<Rightarrow> string" where
  "lower s = map lower_char s"

text \<open>
  \<^verbatim>\<open>bytes.split()\<close> with no argument: the maximal runs of bytes that are not ASCII
  whitespace (space, tab, newline, vertical tab, form feed, carriage return).
\<close>

definition is_space :: "char \<Rightarrow> bool" where
  "is_space c = ((of_char c :: nat) = 32 \<or> (9 \<le> (of_char c :: nat) \<and> (of_char c :: nat) \<le> 13))"

fun split_acc :: "string \<Rightarrow> string \<Rightarrow> string list" where
  "split_acc cur [] = (if cur = [] then [] else [cur])"
| "split_acc cur (c # cs) =
     (if is_space c then (if cur = [] then split_acc [] cs else cur # split_acc [] cs)
      else split_acc (cur @ [c]) cs)"

definition split :: "string \<Rightarrow> string list" where
  "split s = split_acc [] s"

text \<open>
  \<^verbatim>\<open>bytes.decode()\<close>: strict UTF-8. A Python string is represented by its UTF-8
  encoding, so decoding returns the bytes themselves when they are well-formed UTF-8 and
  raises UnicodeDecodeError otherwise.
\<close>

definition is_cont :: "nat \<Rightarrow> bool" where
  "is_cont b = (128 \<le> b \<and> b \<le> 191)"

fun valid_utf8 :: "nat list \<Rightarrow> bool" where
  "valid_utf8 [] = True"
| "valid_utf8 [a] = (a < 128)"
| "valid_utf8 [a, b] = (if a < 128 then valid_utf8 [b] else 194 \<le> a \<and> a \<le> 223 \<and> is_cont b)"
| "valid_utf8 [a, b, c] =
     (if a < 128 then valid_utf8 [b, c]
      else if 194 \<le> a \<and> a \<le> 223 then is_cont b \<and> valid_utf8 [c]
      else if a = 224 then 160 \<le> b \<and> b \<le> 191 \<and> is_cont c
      else if a = 237 then 128 \<le> b \<and> b \<le> 159 \<and> is_cont c
      else 225 \<le> a \<and> a \<le> 239 \<and> is_cont b \<and> is_cont c)"
| "valid_utf8 (a # b # c # d # r) =
     (if a < 128 then valid_utf8 (b # c # d # r)
      else if 194 \<le> a \<and> a \<le> 223 then is_cont b \<and> valid_utf8 (c # d # r)
      else if a = 224 then 160 \<le> b \<and> b \<le> 191 \<and> is_cont c \<and> valid_utf8 (d # r)
      else if a = 237 then 128 \<le> b \<and> b \<le> 159 \<and> is_cont c \<and> valid_utf8 (d # r)
      else if 225 \<le> a \<and> a \<le> 239 then is_cont b \<and> is_cont c \<and> valid_utf8 (d # r)
      else if a = 240 then 144 \<le> b \<and> b \<le> 191 \<and> is_cont c \<and> is_cont d \<and> valid_utf8 r
      else if a = 244 then 128 \<le> b \<and> b \<le> 143 \<and> is_cont c \<and> is_cont d \<and> valid_utf8 r
      else 241 \<le> a \<and> a \<le> 243 \<and> is_cont b \<and> is_cont c \<and> is_cont d \<and> valid_utf8 r)"

definition bytes_decode :: "string \<Rightarrow> exn + string" where
  "bytes_decode b =
     (if valid_utf8 (map of_char b) then Inr b
      else Inl (OtherException ''UnicodeDecodeError''))"

subsection \<open>Configuration, network and the python-jose interface\<close>

text \<open>
  The three environment variables read with \<^verbatim>\<open>os.getenv\<close> (None when unset) and the
  class attribute \<^verbatim>\<open>CACHE_TTL\<close> (600 in the source; the tests overwrite it).
\<close>

record config =
  OIDC_ISSUER :: "string option"
  OIDC_AUDIENCE :: "string option"
  OIDC_JWKS_URL :: "string option"
  CACHE_TTL :: real

text \<open>
  The outcome of lines 138 to 142 for one request: \<^verbatim>\<open>requests.get\<close>,
  \<^verbatim>\<open>raise_for_status\<close> or \<^verbatim>\<open>json\<close> raises a \<^verbatim>\<open>requests.RequestException\<close>; or one of
  them raises another exception; or the body parses to a JSON value that is not an
  object (then \<^verbatim>\<open>jwks.get\<close> raises AttributeError); or it parses to an object, whose
  \<^verbatim>\<open>keys\<close> member is absent (None) or a list of key entries.
\<close>

datatype response =
    RequestFails string
  | OtherFailure string
  | NotAnObject
  | JsonObject "dict list option"

type_synonym network = "string \<Rightarrow> nat \<Rightarrow> response"

text \<open>
  The python-jose functions the module calls. \<open>decode\<close> is \<^verbatim>\<open>jwt.decode\<close> with the
  fixed \<^verbatim>\<open>options\<close> of lines 209 to 219; its arguments are the token, the key, the
  list \<^verbatim>\<open>algorithms\<close>, the audience and the issuer.
\<close>

record 'k jose =
  get_unverified_header :: "string \<Rightarrow> exn + dict"
  construct :: "dict \<Rightarrow> exn + 'k"
  decode :: "string \<Rightarrow> 'k \<Rightarrow> string list \<Rightarrow> string \<Rightarrow> string \<Rightarrow> exn + claims"

subsection \<open>The key cache\<close>

text \<open>
  \<^verbatim>\<open>_jwks_cache\<close> is a class attribute holding a dictionary. Reading
  \<^verbatim>\<open>self._jwks_cache\<close> finds the instance attribute when the instance has one and the
  class attribute otherwise; the assignment of line 145 creates the instance attribute;
  the item assignment of line 180 changes the dictionary that the read finds.
  \<open>requests_log\<close> lists the URLs requested so far, oldest first.
\<close>

record cache =
  keys :: "dict list option"
  last_updated :: real

record auth_state =
  class_cache :: cache
  instance_cache :: "cache option"
  requests_log :: "string list"

definition jwks_cache :: "auth_state \<Rightarrow> cache" where
  "jwks_cache st = (case instance_cache st of Some c \<Rightarrow> c | None \<Rightarrow> class_cache st)"

text \<open>Line 180: \<^verbatim>\<open>self._jwks_cache['last_updated'] = 0\<close>.\<close>

definition reset_last_updated :: "auth_state \<Rightarrow> auth_state" where
  "reset_last_updated st =
     (case instance_cache st of
        Some c \<Rightarrow> st\<lparr>instance_cache := Some (c\<lparr>last_updated := 0\<rparr>)\<rparr>
      | None \<Rightarrow> st\<lparr>class_cache := (class_cache st)\<lparr>last_updated := 0\<rparr>\<rparr>)"

text \<open>
  \<^verbatim>\<open>OIDCAuthentication()\<close>: a new object has no attribute of its own, and the class
  attribute is what it was. The framework makes one authenticator for each request.
\<close>

definition new_instance :: "auth_state \<Rightarrow> auth_state" where
  "new_instance st = st\<lparr>instance_cache := None\<rparr>"

text \<open>Lines 123 to 135: the URL of the key set.\<close>

definition jwks_url :: "config \<Rightarrow> exn + string" where
  "jwks_url cfg =
     (if \<not> falsy (OIDC_JWKS_URL cfg) then Inr (the (OIDC_JWKS_URL cfg))
      else if falsy (OIDC_ISSUER cfg) then Inl (AuthenticationFailed ''OIDC_ISSUER not configured'')
      else
        (let issuer = the (OIDC_ISSUER cfg) in
         if \<not> contains issuer ''/.well-known/'' then
           (if endswith issuer ''/'' then Inr (issuer @ ''.well-known/jwks.json'')
            else Inr (issuer @ ''/.well-known/jwks.json''))
         else Inr issuer))"

text \<open>\<^verbatim>\<open>get_jwks\<close>, lines 113 to 157.\<close>

definition stale :: "config \<Rightarrow> real \<Rightarrow> auth_state \<Rightarrow> bool" where
  "stale cfg now st =
     (keys (jwks_cache st) = None \<or> now - last_updated (jwks_cache st) > CACHE_TTL cfg)"

definition get_jwks ::
  "config \<Rightarrow> network \<Rightarrow> real \<Rightarrow> auth_state \<Rightarrow> (exn + dict list option) \<times> auth_state" where
  "get_jwks cfg net now st =
     (if stale cfg now st then
        (case jwks_url cfg of
           Inl e \<Rightarrow> (Inl e, st)
         | Inr url \<Rightarrow>
             (let st1 = st\<lparr>requests_log := requests_log st @ [url]\<rparr> in
              case net url (length (requests_log st)) of
                RequestFails m \<Rightarrow>
                  (if keys (jwks_cache st1) \<noteq> None then (Inr (keys (jwks_cache st1)), st1)
                   else (Inl (RequestException m), st1))
              | OtherFailure m \<Rightarrow> (Inl (OtherException m), st1)
              | NotAnObject \<Rightarrow> (Inl (OtherException ''AttributeError''), st1)
              | JsonObject ks \<Rightarrow>
                  (if ks = None \<or> ks = Some [] then
                     (Inl (AuthenticationFailed ''Invalid JWKS format''), st1)
                   else
                     (let st2 = st1\<lparr>instance_cache := Some \<lparr>keys = ks, last_updated = now\<rparr>\<rparr>
                      in (Inr (keys (jwks_cache st2)), st2)))))
      else (Inr (keys (jwks_cache st)), st))"

subsection \<open>Key resolution\<close>

text \<open>
  Lines 164 to 170. The AuthenticationFailed raised for a missing key id is raised inside
  the \<^verbatim>\<open>try\<close> and so is caught by its \<^verbatim>\<open>except Exception\<close> and wrapped, like an
  exception of \<^verbatim>\<open>get_unverified_header\<close>.
\<close>

definition header_kid :: "'k jose \<Rightarrow> string \<Rightarrow> exn + string" where
  "header_kid lib token =
     (case (case get_unverified_header lib token of
              Inl e \<Rightarrow> Inl e
            | Inr headers \<Rightarrow>
                (if falsy (map_of headers ''kid'')
                 then Inl (AuthenticationFailed ''Token missing key ID (kid)'')
                 else Inr (the (map_of headers ''kid''))))
      of Inl e \<Rightarrow> Inl (AuthenticationFailed (''Invalid token header: '' @ str e))
       | Inr kid \<Rightarrow> Inr kid)"

text \<open>
  The loop of lines 173 to 178 (and 182 to 187): the first entry whose \<^verbatim>\<open>kid\<close> equals
  the token's ends the loop, with the constructed key or with AuthenticationFailed when
  \<^verbatim>\<open>jwk.construct\<close> raises; None when the loop runs to its end.
\<close>

fun find_key :: "'k jose \<Rightarrow> string \<Rightarrow> dict list \<Rightarrow> (exn + 'k) option" where
  "find_key lib kid [] = None"
| "find_key lib kid (key_data # rest) =
     (if map_of key_data ''kid'' = Some kid then
        Some (case construct lib key_data of
                Inl e \<Rightarrow> Inl (AuthenticationFailed (''Failed to construct key: '' @ str e))
              | Inr k \<Rightarrow> Inr k)
      else find_key lib kid rest)"

text \<open>Iterating over the value \<open>get_jwks\<close> returned; None is not iterable.\<close>

definition search_keys :: "'k jose \<Rightarrow> string \<Rightarrow> dict list option \<Rightarrow> exn + (exn + 'k) option" where
  "search_keys lib kid ks =
     (case ks of
        None \<Rightarrow> Inl (OtherException ''TypeError'')
      | Some l \<Rightarrow> Inr (find_key lib kid l))"

text \<open>
  \<^verbatim>\<open>get_key_for_token\<close>, lines 159 to 189. \<open>now1\<close> and \<open>now2\<close> are the clock readings of
  the first and of the second call of \<open>get_jwks\<close>.
\<close>

definition get_key_for_token ::
  "'k jose \<Rightarrow> config \<Rightarrow> network \<Rightarrow> real \<Rightarrow> real \<Rightarrow> auth_state \<Rightarrow> string
     \<Rightarrow> (exn + 'k) \<times> auth_state" where
  "get_key_for_token lib cfg net now1 now2 st token =
     (case header_kid lib token of
        Inl e \<Rightarrow> (Inl e, st)
      | Inr kid \<Rightarrow>
          (case get_jwks cfg net now1 st of
             (Inl e, st1) \<Rightarrow> (Inl e, st1)
           | (Inr ks, st1) \<Rightarrow>
               (case search_keys lib kid ks of
                  Inl e \<Rightarrow> (Inl e, st1)
                | Inr (Some r) \<Rightarrow> (r, st1)
                | Inr None \<Rightarrow>
                    (case get_jwks cfg net now2 (reset_last_updated st1) of
                       (Inl e, st2) \<Rightarrow> (Inl e, st2)
                     | (Inr ks2, st2) \<Rightarrow>
                         (case search_keys lib kid ks2 of
                            Inl e \<Rightarrow> (Inl e, st2)
                          | Inr (Some r) \<Rightarrow> (r, st2)
                          | Inr None \<Rightarrow>
                              (Inl (AuthenticationFailed
                                     (''Key ID '' @ kid @ '' not found in JWKS'')), st2))))))"

subsection \<open>Token validation\<close>

text \<open>The \<^verbatim>\<open>except\<close> clauses of lines 224 to 234, in their order.\<close>

fun decode_handler :: "string \<Rightarrow> string \<Rightarrow> exn \<Rightarrow> exn" where
  "decode_handler audience issuer (ExpiredSignatureError m) =
     AuthenticationFailed ''Token has expired''"
| "decode_handler audience issuer (JWTClaimsError m) =
     (if contains (lower m) ''audience''
        then AuthenticationFailed (''Token audience invalid. Expected: '' @ audience)
      else if contains (lower m) ''issuer''
        then AuthenticationFailed (''Token issuer invalid. Expected: '' @ issuer)
      else AuthenticationFailed (''Token claims verification failed: '' @ m))"
| "decode_handler audience issuer (JWTError m) =
     AuthenticationFailed (''Token validation failed: '' @ m)"
| "decode_handler audience issuer e = e"

text \<open>\<^verbatim>\<open>validate_token\<close>, lines 191 to 234.\<close>

definition validate_token ::
  "'k jose \<Rightarrow> config \<Rightarrow> network \<Rightarrow> real \<Rightarrow> real \<Rightarrow> auth_state \<Rightarrow> string
     \<Rightarrow> (exn + claims) \<times> auth_state" where
  "validate_token lib cfg net now1 now2 st token =
     (if falsy (OIDC_ISSUER cfg) \<or> falsy (OIDC_AUDIENCE cfg) then
        (Inl (AuthenticationFailed ''OIDC configuration incomplete''), st)
      else
        (let issuer = the (OIDC_ISSUER cfg); audience = the (OIDC_AUDIENCE cfg) in
         case get_key_for_token lib cfg net now1 now2 st token of
           (Inl e, st1) \<Rightarrow> (Inl e, st1)
         | (Inr k, st1) \<Rightarrow>
             (case decode lib token k [''RS256''] audience issuer of
                Inl e \<Rightarrow> (Inl (decode_handler audience issuer e), st1)
              | Inr payload \<Rightarrow> (Inr payload, st1))))"

subsection \<open>The customer table\<close>

text \<open>
  The model \<^verbatim>\<open>Customer\<close> (store/models.py). A row of the table holds strings in its
  four character columns and in \<open>external_id\<close>, all NOT NULL; \<open>address\<close> is nullable.
  A \<^verbatim>\<open>Customer\<close> object in memory holds whatever Python value was given to it. Both are
  the record \<open>customer\<close>, of strings for a row and of JSON values for an object.
  \<open>rows\<close> is the table, \<open>writes\<close> the INSERT and UPDATE statements executed so far,
  oldest first.
\<close>

record 'v customer =
  external_id :: 'v
  first_name :: 'v
  last_name :: 'v
  email :: 'v
  phone :: 'v
  address :: "string option"

datatype field = First_name | Last_name | Email | Phone | Address

datatype db_write = Insert "string customer" | Update string "field list"

record db =
  rows :: "string customer list"
  writes :: "db_write list"

text \<open>
  \<^verbatim>\<open>CharField.to_python\<close>, which prepares a value for the database: None stays None, a
  string stays what it is, anything else becomes its \<^verbatim>\<open>str()\<close>.
\<close>

fun to_python :: "json \<Rightarrow> string option" where
  "to_python JNull = None"
| "to_python (JString s) = Some s"
| "to_python (JOther b s) = Some s"

text \<open>An object read from the table: its columns are strings.\<close>

definition load :: "string customer \<Rightarrow> json customer" where
  "load r = \<lparr>external_id = JString (external_id r), first_name = JString (first_name r),
             last_name = JString (last_name r), email = JString (email r),
             phone = JString (phone r), address = address r\<rparr>"

text \<open>The exception of the database for NULL in a NOT NULL column.\<close>

definition IntegrityError :: "string \<Rightarrow> exn" where
  "IntegrityError column =
     OtherException (''NOT NULL constraint failed: store_customer.'' @ column)"

text \<open>
  The row that an INSERT of the object makes; the columns are checked in the order of
  the table.
\<close>

definition insert_row :: "json customer \<Rightarrow> exn + string customer" where
  "insert_row c =
     (case to_python (external_id c) of
        None \<Rightarrow> Inl (IntegrityError ''external_id'')
      | Some x \<Rightarrow>
     (case to_python (first_name c) of
        None \<Rightarrow> Inl (IntegrityError ''first_name'')
      | Some f \<Rightarrow>
     (case to_python (last_name c) of
        None \<Rightarrow> Inl (IntegrityError ''last_name'')
      | Some l \<Rightarrow>
     (case to_python (email c) of
        None \<Rightarrow> Inl (IntegrityError ''email'')
      | Some e \<Rightarrow>
     (case to_python (phone c) of
        None \<Rightarrow> Inl (IntegrityError ''phone'')
      | Some p \<Rightarrow>
          Inr \<lparr>external_id = x, first_name = f, last_name = l, email = e, phone = p,
               address = address c\<rparr>)))))"

text \<open>
  \<^verbatim>\<open>Customer.objects.get_or_create(external_id=sub, defaults=...)\<close>: the row with that
  \<open>external_id\<close> (a unique column) when there is one; otherwise an object with the
  defaults and no address is made and inserted. When the INSERT fails, nothing is
  inserted and the IntegrityError is raised.
\<close>

definition get_or_create ::
  "db \<Rightarrow> json \<Rightarrow> claims \<Rightarrow> exn + (json customer \<times> bool) \<times> db" where
  "get_or_create d sub payload =
     (case find (\<lambda>r. Some (external_id r) = to_python sub) (rows d) of
        Some r \<Rightarrow> Inr ((load r, False), d)
      | None \<Rightarrow>
          (let c = \<lparr>external_id = sub,
                     first_name = get_default payload ''given_name'',
                     last_name = get_default payload ''family_name'',
                     email = get_default payload ''email'',
                     phone = get_default payload ''phone_number'',
                     address = None\<rparr>
           in case insert_row c of
                Inl e \<Rightarrow> Inl e
              | Inr r \<Rightarrow>
                  Inr ((c, True), d\<lparr>rows := rows d @ [r], writes := writes d @ [Insert r]\<rparr>)))"

text \<open>The value an UPDATE writes into a column, and the name of the column.\<close>

fun value_of :: "json customer \<Rightarrow> field \<Rightarrow> string option" where
  "value_of obj First_name = to_python (first_name obj)"
| "value_of obj Last_name = to_python (last_name obj)"
| "value_of obj Email = to_python (email obj)"
| "value_of obj Phone = to_python (phone obj)"
| "value_of obj Address = address obj"

fun column_name :: "field \<Rightarrow> string" where
  "column_name First_name = ''first_name''"
| "column_name Last_name = ''last_name''"
| "column_name Email = ''email''"
| "column_name Phone = ''phone''"
| "column_name Address = ''address''"

fun set_field :: "json customer \<Rightarrow> field \<Rightarrow> string customer \<Rightarrow> string customer" where
  "set_field obj First_name r =
     (case to_python (first_name obj) of None \<Rightarrow> r | Some v \<Rightarrow> r\<lparr>first_name := v\<rparr>)"
| "set_field obj Last_name r =
     (case to_python (last_name obj) of None \<Rightarrow> r | Some v \<Rightarrow> r\<lparr>last_name := v\<rparr>)"
| "set_field obj Email r =
     (case to_python (email obj) of None \<Rightarrow> r | Some v \<Rightarrow> r\<lparr>email := v\<rparr>)"
| "set_field obj Phone r =
     (case to_python (phone obj) of None \<Rightarrow> r | Some v \<Rightarrow> r\<lparr>phone := v\<rparr>)"
| "set_field obj Address r = r\<lparr>address := address obj\<rparr>"

text \<open>
  \<^verbatim>\<open>customer.save(update_fields=fs)\<close>: one UPDATE that sets the listed columns of the
  object's row to the object's values; the other columns keep what is stored. The row
  is the one with the object's \<open>external_id\<close>, a unique column that this module never
  assigns to a loaded object. NULL for a listed NOT NULL column raises IntegrityError,
  and an object without a row raises DatabaseError; nothing is written then.
\<close>

definition save :: "db \<Rightarrow> json customer \<Rightarrow> field list \<Rightarrow> exn + db" where
  "save d obj fs =
     (case find (\<lambda>f. f \<noteq> Address \<and> value_of obj f = None) fs of
        Some f \<Rightarrow> Inl (IntegrityError (column_name f))
      | None \<Rightarrow>
          (case find (\<lambda>r. Some (external_id r) = to_python (external_id obj)) (rows d) of
             None \<Rightarrow>
               Inl (OtherException ''Save with update_fields did not affect any rows.'')
           | Some r0 \<Rightarrow>
               Inr (d\<lparr>rows := map (\<lambda>r. if external_id r = external_id r0
                                        then fold (set_field obj) fs r else r) (rows d),
                       writes := writes d @ [Update (external_id r0) fs]\<rparr>)))"

subsection \<open>The entry point\<close>

text \<open>
  Lines 84 to 96 on a customer that was already there: the four comparisons in their
  order, each changing the object and extending \<^verbatim>\<open>update_fields\<close>. The object comes
  from the table, so the left side of each comparison is a string, equal to a claim
  only when the claim is that string.
\<close>

definition update_profile :: "json customer \<Rightarrow> claims \<Rightarrow> json customer \<times> field list" where
  "update_profile customer payload =
     (let (c1, u1) =
            (if truthy (get payload ''given_name'')
                \<and> first_name customer \<noteq> get payload ''given_name''
             then (customer\<lparr>first_name := get payload ''given_name''\<rparr>, [First_name])
             else (customer, []));
          (c2, u2) =
            (if truthy (get payload ''family_name'')
                \<and> last_name c1 \<noteq> get payload ''family_name''
             then (c1\<lparr>last_name := get payload ''family_name''\<rparr>, u1 @ [Last_name])
             else (c1, u1));
          (c3, u3) =
            (if truthy (get payload ''email'')
                \<and> email c2 \<noteq> get payload ''email''
             then (c2\<lparr>email := get payload ''email''\<rparr>, u2 @ [Email])
             else (c2, u2));
          (c4, u4) =
            (if truthy (get payload ''phone_number'')
                \<and> phone c3 \<noteq> get payload ''phone_number''
             then (c3\<lparr>phone := get payload ''phone_number''\<rparr>, u3 @ [Phone])
             else (c3, u3))
      in (c4, u4))"

text \<open>
  Lines 73 to 99: \<^verbatim>\<open>get_or_create\<close>, then for a row that was already there the
  comparisons and, when \<^verbatim>\<open>update_fields\<close> is not empty, \<^verbatim>\<open>save\<close>.
\<close>

definition reconcile :: "db \<Rightarrow> json \<Rightarrow> claims \<Rightarrow> exn + json customer \<times> db" where
  "reconcile d sub payload =
     (case get_or_create d sub payload of
        Inl e \<Rightarrow> Inl e
      | Inr ((customer, created), d1) \<Rightarrow>
          if \<not> created then
            (let (customer1, update_fields) = update_profile customer payload in
             if update_fields \<noteq> [] then
               (case save d1 customer1 update_fields of
                  Inl e \<Rightarrow> Inl e
                | Inr d2 \<Rightarrow> Inr (customer1, d2))
             else Inr (customer1, d1))
          else Inr (customer, d1))"

text \<open>
  The body of the \<^verbatim>\<open>try\<close>, lines 67 to 101. An exception of the storage leaves the
  table as it was.
\<close>

definition authenticate_token ::
  "'k jose \<Rightarrow> config \<Rightarrow> network \<Rightarrow> real \<Rightarrow> real \<Rightarrow> auth_state \<Rightarrow> db \<Rightarrow> string
     \<Rightarrow> (exn + json customer \<times> string) \<times> auth_state \<times> db" where
  "authenticate_token lib cfg net now1 now2 st d token =
     (case validate_token lib cfg net now1 now2 st token of
        (Inl e, st1) \<Rightarrow> (Inl e, st1, d)
      | (Inr payload, st1) \<Rightarrow>
          (if \<not> truthy (get payload ''sub'') then
             (Inl (AuthenticationFailed ''Token missing sub claim''), st1, d)
           else
             (case reconcile d (get payload ''sub'') payload of
                Inl e \<Rightarrow> (Inl e, st1, d)
              | Inr (customer, d1) \<Rightarrow> (Inr (customer, token), st1, d1))))"

text \<open>The \<^verbatim>\<open>except\<close> clauses of lines 103 to 111, in their order.\<close>

definition authenticate_handler :: "exn \<Rightarrow> exn" where
  "authenticate_handler e =
     (if is_JWTError e then AuthenticationFailed (''Invalid token: '' @ str e)
      else (case e of
              RequestException m \<Rightarrow> AuthenticationFailed ''Error fetching JWKS''
            | _ \<Rightarrow> AuthenticationFailed (''Authentication failed: '' @ str e)))"

text \<open>
  \<^verbatim>\<open>rest_framework.authentication.get_authorization_header\<close>: the bytes of the
  Authorization header, empty when the request has none.
\<close>

definition get_authorization_header :: "string option \<Rightarrow> string" where
  "get_authorization_header h = (case h of None \<Rightarrow> [] | Some b \<Rightarrow> b)"

text \<open>
  \<^verbatim>\<open>authenticate\<close>, lines 54 to 111. The request is its Authorization header (None when
  absent). The result is None, the pair of the customer and the token, or an exception;
  line 64 stands outside the \<^verbatim>\<open>try\<close>, so its UnicodeDecodeError is not converted.
\<close>

definition authenticate ::
  "'k jose \<Rightarrow> config \<Rightarrow> network \<Rightarrow> real \<Rightarrow> real \<Rightarrow> auth_state \<Rightarrow> db \<Rightarrow> string option
     \<Rightarrow> (exn + (json customer \<times> string) option) \<times> auth_state \<times> db" where
  "authenticate lib cfg net now1 now2 st d request =
     (let auth_header = split (get_authorization_header request) in
      if auth_header = [] \<or> lower (hd auth_header) \<noteq> ''bearer'' then (Inr None, st, d)
      else if length auth_header \<noteq> 2 then
        (Inl (AuthenticationFailed ''Invalid token header. No credentials provided.''), st, d)
      else
        (case bytes_decode (auth_header ! 1) of
           Inl e \<Rightarrow> (Inl e, st, d)
         | Inr token \<Rightarrow>
             (case authenticate_token lib cfg net now1 now2 st d token of
                (Inl e, st1, d1) \<Rightarrow> (Inl (authenticate_handler e), st1, d1)
              | (Inr r, st1, d1) \<Rightarrow> (Inr (Some r), st1, d1))))"

subsection \<open>What the specification says is persisted\<close>

text \<open>
  The claim a column is compared with, and the stored value of a column as the Python
  value an object read from the table holds. The address has no claim.
\<close>

fun claim_of :: "claims \<Rightarrow> field \<Rightarrow> json" where
  "claim_of payload First_name = get payload ''given_name''"
| "claim_of payload Last_name = get payload ''family_name''"
| "claim_of payload Email = get payload ''email''"
| "claim_of payload Phone = get payload ''phone_number''"
| "claim_of payload Address = JNull"

fun stored :: "string customer \<Rightarrow> field \<Rightarrow> json" where
  "stored r First_name = JString (first_name r)"
| "stored r Last_name = JString (last_name r)"
| "stored r Email = JString (email r)"
| "stored r Phone = JString (phone r)"
| "stored r Address = (case address r of None \<Rightarrow> JNull | Some a \<Rightarrow> JString a)"

text \<open>
  The specification's set of fields to persist: those of first name, last name, email
  and phone whose incoming claim value is non-empty and differs from the stored value.
\<close>

definition changed_fields :: "string customer \<Rightarrow> claims \<Rightarrow> field list" where
  "changed_fields r payload =
     filter (\<lambda>f. truthy (claim_of payload f) \<and> stored r f \<noteq> claim_of payload f)
       [First_name, Last_name, Email, Phone]"

subsection \<open>Example inputs\<close>

text \<open>
  A stand-in for python-jose over a table of tokens, used for the concrete instances
  below: a token has a header, a payload, the key that verifies its signature and an
  expiry flag; decoding checks the algorithm against the allowed list, then the
  signature, the expiry, the audience and the issuer.
\<close>

record toy_token =
  t_header :: dict
  t_payload :: claims
  t_signer :: string
  t_expired :: bool

definition jose_example :: "(string \<times> toy_token) list \<Rightarrow> string jose" where
  "jose_example table =
     \<lparr>get_unverified_header = (\<lambda>token.
          case map_of table token of
            None \<Rightarrow> Inl (JWTError ''Error decoding token headers.'')
          | Some t \<Rightarrow> Inr (t_header t)),
      construct = (\<lambda>key_data.
          case map_of key_data ''n'' of
            None \<Rightarrow> Inl (OtherException ''JWKError'')
          | Some n \<Rightarrow> Inr n),
      decode = (\<lambda>token k algorithms audience issuer.
          case map_of table token of
            None \<Rightarrow> Inl (JWTError ''Not enough segments'')
          | Some t \<Rightarrow>
              if map_of (t_header t) ''alg'' \<notin> Some ` set algorithms
                then Inl (JWTError ''The specified alg value is not allowed'')
              else if k \<noteq> t_signer t then Inl (JWTError ''Signature verification failed.'')
              else if t_expired t then Inl (ExpiredSignatureError ''Signature has expired.'')
              else if map_of (t_payload t) ''aud'' \<noteq> Some (JString audience)
                then Inl (JWTClaimsError ''Invalid audience'')
              else if map_of (t_payload t) ''iss'' \<noteq> Some (JString issuer)
                then Inl (JWTClaimsError ''Invalid issuer'')
              else Inr (t_payload t))\<rparr>"

definition payload_u1 :: claims where
  "payload_u1 = [(''sub'', JString ''u1''), (''iss'', JString ''https://idp.example/''),
                 (''aud'', JString ''app1''), (''given_name'', JString ''Ann'')]"

definition payload_app2 :: claims where
  "payload_app2 = [(''sub'', JString ''u1''), (''iss'', JString ''https://idp.example/''),
                   (''aud'', JString ''app2'')]"

text \<open>A new subject whose \<^verbatim>\<open>given_name\<close> member is null.\<close>

definition payload_u2 :: claims where
  "payload_u2 = [(''sub'', JString ''u2''), (''iss'', JString ''https://idp.example/''),
                 (''aud'', JString ''app1''), (''given_name'', JNull)]"


definition header_k1 :: dict where
  "header_k1 = [(''alg'', ''RS256''), (''kid'', ''k1'')]"

definition tokens_example :: "(string \<times> toy_token) list" where
  "tokens_example =
     [(''t1'', \<lparr>t_header = header_k1, t_payload = payload_u1,
                t_signer = ''P'', t_expired = False\<rparr>),
      (''t2'', \<lparr>t_header = header_k1, t_payload = payload_u1,
                t_signer = ''P'', t_expired = True\<rparr>),
      (''t3'', \<lparr>t_header = header_k1, t_payload = payload_app2,
                t_signer = ''P'', t_expired = False\<rparr>),
      (''t4'', \<lparr>t_header = header_k1, t_payload = payload_u1,
                t_signer = ''Q'', t_expired = False\<rparr>),
      (''t5'', \<lparr>t_header = [(''alg'', ''HS256''), (''kid'', ''k1'')], t_payload = payload_u1,
                t_signer = ''P'', t_expired = False\<rparr>),
      (''t6'', \<lparr>t_header = [(''alg'', ''RS256''), (''kid'', ''unknown'')],
                t_payload = payload_u1, t_signer = ''P'', t_expired = False\<rparr>),
      (''t7'', \<lparr>t_header = [(''alg'', ''RS256'')], t_payload = payload_u1,
                t_signer = ''P'', t_expired = False\<rparr>),
      (''t8'', \<lparr>t_header = header_k1, t_payload = payload_app2,
                t_signer = ''P'', t_expired = True\<rparr>),
      (''t9'', \<lparr>t_header = header_k1, t_payload = payload_u1,
                t_signer = ''Q'', t_expired = True\<rparr>),
      (''t10'', \<lparr>t_header = [(''alg'', ''RS256''), (''kid'', ''k2'')],
                t_payload = payload_u1, t_signer = ''P2'', t_expired = False\<rparr>),
      (''t11'', \<lparr>t_header = header_k1, t_payload = payload_u2,
                t_signer = ''P'', t_expired = False\<rparr>)]"

definition lib_example :: "string jose" where
  "lib_example = jose_example tokens_example"

definition cfg_example :: config where
  "cfg_example = \<lparr>OIDC_ISSUER = Some ''https://idp.example/'', OIDC_AUDIENCE = Some ''app1'',
                   OIDC_JWKS_URL = None, CACHE_TTL = 600\<rparr>"

definition cfg_unset :: config where
  "cfg_unset = \<lparr>OIDC_ISSUER = None, OIDC_AUDIENCE = None, OIDC_JWKS_URL = None,
                 CACHE_TTL = 600\<rparr>"

definition url_example :: string where
  "url_example = ''https://idp.example/.well-known/jwks.json''"

definition key_k1 :: dict where
  "key_k1 = [(''kty'', ''RSA''), (''kid'', ''k1''), (''n'', ''P'')]"

definition key_k2 :: dict where
  "key_k2 = [(''kty'', ''RSA''), (''kid'', ''k2''), (''n'', ''P2'')]"

definition net_ok :: network where
  "net_ok url n = JsonObject (Some [key_k1])"

text \<open>A provider that has added the key \<^verbatim>\<open>k2\<close> after the first request.\<close>

definition net_rotated :: network where
  "net_rotated url n = JsonObject (Some (if n = 0 then [key_k1] else [key_k1, key_k2]))"



text \<open>The class as lines 46 to 49 leave it, and an instance without attributes.\<close>

definition initial_state :: auth_state where
  "initial_state = \<lparr>class_cache = \<lparr>keys = None, last_updated = 0\<rparr>, instance_cache = None,
                     requests_log = []\<rparr>"

text \<open>An instance that fetched the key set at time 1000.\<close>

definition cached_state :: auth_state where
  "cached_state = \<lparr>class_cache = \<lparr>keys = None, last_updated = 0\<rparr>,
                    instance_cache = Some \<lparr>keys = Some [key_k1], last_updated = 1000\<rparr>,
                    requests_log = [url_example]\<rparr>"

text \<open>That instance after a forced refresh at time 1101.\<close>

definition refreshed_state :: auth_state where
  "refreshed_state = \<lparr>class_cache = \<lparr>keys = None, last_updated = 0\<rparr>,
                    instance_cache = Some \<lparr>keys = Some [key_k1], last_updated = 1101\<rparr>,
                    requests_log = [url_example, url_example]\<rparr>"

text \<open>That instance after a forced refresh at time 1101 from the provider with \<^verbatim>\<open>k2\<close>.\<close>

definition rotated_state :: auth_state where
  "rotated_state = \<lparr>class_cache = \<lparr>keys = None, last_updated = 0\<rparr>,
                    instance_cache = Some \<lparr>keys = Some [key_k1, key_k2], last_updated = 1101\<rparr>,
                    requests_log = [url_example, url_example]\<rparr>"

definition empty_db :: db where
  "empty_db = \<lparr>rows = [], writes = []\<rparr>"

definition customer_old :: "string customer" where
  "customer_old = \<lparr>external_id = ''u1'', first_name = ''Old'', last_name = ''Name'',
                    email = ''old@example.com'', phone = ''+1'', address = Some ''12 Elm St''\<rparr>"

definition db_old :: db where
  "db_old = \<lparr>rows = [customer_old], writes = []\<rparr>"

section \<open>Properties\<close>

subsection \<open>The key cache\<close>

lemma jwks_cache_log [simp]:
  "jwks_cache (st\<lparr>requests_log := l\<rparr>) = jwks_cache st"
  by (simp add: jwks_cache_def split: option.splits)

lemma jwks_cache_instance [simp]:
  "jwks_cache (st\<lparr>instance_cache := Some c\<rparr>) = c"
  by (simp add: jwks_cache_def)

lemma get_jwks_fresh:
  "\<not> stale cfg now st \<Longrightarrow> get_jwks cfg net now st = (Inr (keys (jwks_cache st)), st)"
  by (simp add: get_jwks_def)

lemma get_jwks_log:
  "requests_log (snd (get_jwks cfg net now st)) =
     requests_log st @
       (if stale cfg now st then (case jwks_url cfg of Inl e \<Rightarrow> [] | Inr url \<Rightarrow> [url]) else [])"
  by (simp add: get_jwks_def Let_def split: sum.splits response.splits)

lemma get_jwks_never_None:
  "get_jwks cfg net now st = (Inr ks, st') \<Longrightarrow> ks \<noteq> None"
  by (auto simp add: get_jwks_def Let_def stale_def
      split: sum.splits response.splits if_splits dest: sym)

lemma get_jwks_success:
  assumes "stale cfg now st" "jwks_url cfg = Inr url"
    "net url (length (requests_log st)) = JsonObject (Some ks)" "ks \<noteq> []"
  shows "get_jwks cfg net now st =
     (Inr (Some ks), st\<lparr>requests_log := requests_log st @ [url],
                        instance_cache := Some \<lparr>keys = Some ks, last_updated = now\<rparr>\<rparr>)"
  using assms by (simp add: get_jwks_def Let_def)



lemma jwks_url_example:
  "jwks_url cfg_example = Inr url_example"
  by (simp add: jwks_url_def cfg_example_def url_example_def endswith_def)

lemma jwks_cache_cached_state:
  "jwks_cache cached_state = \<lparr>keys = Some [key_k1], last_updated = 1000\<rparr>"
  by (simp add: jwks_cache_def cached_state_def)

lemma jwks_cache_initial_state:
  "jwks_cache initial_state = \<lparr>keys = None, last_updated = 0\<rparr>"
  by (simp add: jwks_cache_def initial_state_def)




lemma get_jwks_within_ttl:
  assumes "keys (jwks_cache st) = Some ks" "t - last_updated (jwks_cache st) \<le> CACHE_TTL cfg"
  shows "get_jwks cfg net t st = (Inr (Some ks), st)"
  using assms by (simp add: get_jwks_fresh stale_def)

lemma jwks_url_resolvable:
  "(\<exists>url. jwks_url cfg = Inr url) \<longleftrightarrow>
     \<not> falsy (OIDC_JWKS_URL cfg) \<or> \<not> falsy (OIDC_ISSUER cfg)"
  by (simp add: jwks_url_def Let_def)

text \<open>
  On one authenticator object the time to live is kept. \<open>get_jwks\<close> performs a fetch if
  and only if the object sees no key set or \<open>now - last_updated\<close> exceeds the time to
  live, given that \<^verbatim>\<open>OIDC_JWKS_URL\<close> or \<^verbatim>\<open>OIDC_ISSUER\<close> is set; it performs at most one
  fetch per call. After a successful refresh at \<open>t0\<close>, calls on this object within the
  time to live return the refreshed set with no further fetch, and a call after the
  time to live has elapsed fetches a second time.
\<close>

lemma get_jwks_ttl_discipline:
  "(requests_log (snd (get_jwks cfg net now st)) \<noteq> requests_log st
      \<longleftrightarrow> (keys (jwks_cache st) = None \<or> now - last_updated (jwks_cache st) > CACHE_TTL cfg)
          \<and> (\<not> falsy (OIDC_JWKS_URL cfg) \<or> \<not> falsy (OIDC_ISSUER cfg)))
   \<and> length (requests_log (snd (get_jwks cfg net now st))) \<le> length (requests_log st) + 1
   \<and> ((keys (jwks_cache st) = None \<or> t0 - last_updated (jwks_cache st) > CACHE_TTL cfg)
        \<and> jwks_url cfg = Inr url
        \<and> net url (length (requests_log st)) = JsonObject (Some ks) \<and> ks \<noteq> []
      \<longrightarrow> (\<exists>st1. get_jwks cfg net t0 st = (Inr (Some ks), st1)
             \<and> requests_log st1 = requests_log st @ [url]
             \<and> (\<forall>t1 t2. t1 - t0 \<le> CACHE_TTL cfg \<and> t2 - t0 \<le> CACHE_TTL cfg
                   \<longrightarrow> get_jwks cfg net t1 st1 = (Inr (Some ks), st1)
                       \<and> get_jwks cfg net t2 st1 = (Inr (Some ks), st1))
             \<and> (\<forall>t3. t3 - t0 > CACHE_TTL cfg
                   \<longrightarrow> requests_log (snd (get_jwks cfg net t3 st1)) = requests_log st @ [url, url])))"
proof (intro conjI impI)
  show "requests_log (snd (get_jwks cfg net now st)) \<noteq> requests_log st
      \<longleftrightarrow> (keys (jwks_cache st) = None \<or> now - last_updated (jwks_cache st) > CACHE_TTL cfg)
          \<and> (\<not> falsy (OIDC_JWKS_URL cfg) \<or> \<not> falsy (OIDC_ISSUER cfg))"
  proof -
    have "requests_log (snd (get_jwks cfg net now st)) \<noteq> requests_log st
      \<longleftrightarrow> (keys (jwks_cache st) = None \<or> now - last_updated (jwks_cache st) > CACHE_TTL cfg)
          \<and> (\<exists>url. jwks_url cfg = Inr url)"
      by (cases "jwks_url cfg") (simp_all add: get_jwks_log stale_def)
    then show ?thesis
      by (simp only: jwks_url_resolvable)
  qed
  show "length (requests_log (snd (get_jwks cfg net now st))) \<le> length (requests_log st) + 1"
    by (simp add: get_jwks_log split: sum.splits)
next
  assume h: "(keys (jwks_cache st) = None \<or> t0 - last_updated (jwks_cache st) > CACHE_TTL cfg)
        \<and> jwks_url cfg = Inr url
        \<and> net url (length (requests_log st)) = JsonObject (Some ks) \<and> ks \<noteq> []"
  define st1 where "st1 = st\<lparr>requests_log := requests_log st @ [url],
                        instance_cache := Some \<lparr>keys = Some ks, last_updated = t0\<rparr>\<rparr>"
  from h have s: "stale cfg t0 st" by (simp add: stale_def)
  have g: "get_jwks cfg net t0 st = (Inr (Some ks), st1)"
    unfolding st1_def using get_jwks_success [OF s] h by simp
  have c: "jwks_cache st1 = \<lparr>keys = Some ks, last_updated = t0\<rparr>"
    by (simp add: st1_def)
  have l: "requests_log st1 = requests_log st @ [url]"
    by (simp add: st1_def)
  have w: "\<And>t. t - t0 \<le> CACHE_TTL cfg \<Longrightarrow> get_jwks cfg net t st1 = (Inr (Some ks), st1)"
    by (rule get_jwks_within_ttl) (simp_all add: c)
  have a: "\<And>t3. t3 - t0 > CACHE_TTL cfg \<Longrightarrow>
      requests_log (snd (get_jwks cfg net t3 st1)) = requests_log st @ [url, url]"
    using h by (simp add: get_jwks_log stale_def c l)
  show "\<exists>st1. get_jwks cfg net t0 st = (Inr (Some ks), st1)
             \<and> requests_log st1 = requests_log st @ [url]
             \<and> (\<forall>t1 t2. t1 - t0 \<le> CACHE_TTL cfg \<and> t2 - t0 \<le> CACHE_TTL cfg
                   \<longrightarrow> get_jwks cfg net t1 st1 = (Inr (Some ks), st1)
                       \<and> get_jwks cfg net t2 st1 = (Inr (Some ks), st1))
             \<and> (\<forall>t3. t3 - t0 > CACHE_TTL cfg
                   \<longrightarrow> requests_log (snd (get_jwks cfg net t3 st1)) = requests_log st @ [url, url])"
    using g l w a by blast
qed

lemma get_jwks_ttl_discipline_example:
  "requests_log (snd (get_jwks cfg_example net_ok 1000 initial_state)) \<noteq> requests_log initial_state
   \<and> (\<exists>st1. get_jwks cfg_example net_ok 1000 initial_state = (Inr (Some [key_k1]), st1)
         \<and> requests_log st1 = [url_example]
         \<and> get_jwks cfg_example net_ok 1300 st1 = (Inr (Some [key_k1]), st1)
         \<and> get_jwks cfg_example net_ok 1600 st1 = (Inr (Some [key_k1]), st1)
         \<and> requests_log (snd (get_jwks cfg_example net_ok 1601 st1)) = [url_example, url_example])"
proof -
  have n: "net_ok url_example (length (requests_log initial_state)) = JsonObject (Some [key_k1])"
    by (simp add: net_ok_def)
  have e: "requests_log initial_state = []" by (simp add: initial_state_def)
  have t: "CACHE_TTL cfg_example = 600" by (simp add: cfg_example_def)
  from get_jwks_ttl_discipline [of cfg_example net_ok 1000 initial_state 1000 url_example "[key_k1]"]
  have 1: "requests_log (snd (get_jwks cfg_example net_ok 1000 initial_state)) \<noteq> requests_log initial_state"
    by (simp add: jwks_cache_initial_state cfg_example_def)
  from get_jwks_ttl_discipline [of cfg_example net_ok 1000 initial_state 1000 url_example "[key_k1]"]
    jwks_url_example n
  obtain st1 where s: "get_jwks cfg_example net_ok 1000 initial_state = (Inr (Some [key_k1]), st1)"
    "requests_log st1 = requests_log initial_state @ [url_example]"
    "\<forall>t1 t2. t1 - 1000 \<le> CACHE_TTL cfg_example \<and> t2 - 1000 \<le> CACHE_TTL cfg_example
        \<longrightarrow> get_jwks cfg_example net_ok t1 st1 = (Inr (Some [key_k1]), st1)
          \<and> get_jwks cfg_example net_ok t2 st1 = (Inr (Some [key_k1]), st1)"
    "\<forall>t3. t3 - 1000 > CACHE_TTL cfg_example
        \<longrightarrow> requests_log (snd (get_jwks cfg_example net_ok t3 st1)) = requests_log initial_state @ [url_example, url_example]"
    by (auto simp add: jwks_cache_initial_state)
  from s(3) [rule_format, of 1300 1600] have 3:
    "get_jwks cfg_example net_ok 1300 st1 = (Inr (Some [key_k1]), st1)"
    "get_jwks cfg_example net_ok 1600 st1 = (Inr (Some [key_k1]), st1)"
    by (simp_all add: t)
  from s(4) [rule_format, of 1601] have 4:
    "requests_log (snd (get_jwks cfg_example net_ok 1601 st1)) = [url_example, url_example]"
    by (simp add: t e)
  show ?thesis using 1 s(1,2) 3 4 by (auto simp add: e)
qed

lemma get_jwks_initial_state:
  "get_jwks cfg_example net_ok 1000 initial_state = (Inr (Some [key_k1]), cached_state)"
proof -
  have s: "stale cfg_example 1000 initial_state"
    by (simp add: stale_def jwks_cache_initial_state)
  have n: "net_ok url_example (length (requests_log initial_state)) = JsonObject (Some [key_k1])"
    by (simp add: net_ok_def)
  show ?thesis
    using get_jwks_success [where cfg = cfg_example and now = 1000 and st = initial_state
        and url = url_example and net = net_ok and ks = "[key_k1]"] s jwks_url_example n
    by (simp add: cached_state_def initial_state_def)
qed

lemma get_jwks_new_instance:
  "get_jwks cfg_example net_ok 1001 (new_instance cached_state) =
     (Inr (Some [key_k1]),
      \<lparr>class_cache = \<lparr>keys = None, last_updated = 0\<rparr>,
       instance_cache = Some \<lparr>keys = Some [key_k1], last_updated = 1001\<rparr>,
       requests_log = [url_example, url_example]\<rparr>)"
proof -
  have s: "stale cfg_example 1001 (new_instance cached_state)"
    by (simp add: stale_def jwks_cache_def new_instance_def cached_state_def)
  have n: "net_ok url_example (length (requests_log (new_instance cached_state))) =
      JsonObject (Some [key_k1])"
    by (simp add: net_ok_def)
  show ?thesis
    using get_jwks_success [where cfg = cfg_example and now = 1001
        and st = "new_instance cached_state" and url = url_example and net = net_ok
        and ks = "[key_k1]"] s jwks_url_example n
    by (simp add: cached_state_def new_instance_def)
qed

text \<open>
  Claim C6, at two authenticator objects. An authenticator fetches the key set at time
  1000; the assignment of line 145 stores it in an attribute of that object, and the
  class attribute of line 46 stays empty. On this object a call at time 1001 makes no
  fetch. A second authenticator, made for the next request, sees the empty class
  attribute and fetches again at time 1001, one second after the successful refresh
  and with a time to live of 600 seconds: two fetches where the claim has one.
\<close>

theorem get_jwks_new_instance_refetches:
  "CACHE_TTL cfg_example = 600
   \<and> get_jwks cfg_example net_ok 1000 (new_instance initial_state) =
       (Inr (Some [key_k1]), cached_state)
   \<and> requests_log cached_state = [url_example]
   \<and> class_cache cached_state = \<lparr>keys = None, last_updated = 0\<rparr>
   \<and> get_jwks cfg_example net_ok 1001 cached_state = (Inr (Some [key_k1]), cached_state)
   \<and> requests_log (snd (get_jwks cfg_example net_ok 1001 (new_instance cached_state))) =
       [url_example, url_example]"
proof -
  have i: "new_instance initial_state = initial_state"
    by (simp add: new_instance_def initial_state_def)
  have w: "get_jwks cfg_example net_ok 1001 cached_state = (Inr (Some [key_k1]), cached_state)"
    by (rule get_jwks_within_ttl) (simp_all add: jwks_cache_cached_state cfg_example_def)
  show ?thesis
    by (simp add: i get_jwks_initial_state w get_jwks_new_instance)
       (simp add: cached_state_def cfg_example_def)
qed

subsection \<open>Key resolution\<close>

lemma jwks_cache_reset [simp]:
  "last_updated (jwks_cache (reset_last_updated st)) = 0"
  "keys (jwks_cache (reset_last_updated st)) = keys (jwks_cache st)"
  "requests_log (reset_last_updated st) = requests_log st"
  by (simp_all add: jwks_cache_def reset_last_updated_def split: option.splits)

lemma stale_reset:
  "CACHE_TTL cfg < now \<Longrightarrow> stale cfg now (reset_last_updated st)"
  by (simp add: stale_def)

lemma find_key_None_iff:
  "find_key lib kid ks = None \<longleftrightarrow> (\<forall>kd \<in> set ks. map_of kd ''kid'' \<noteq> Some kid)"
  by (induction ks) auto

lemma header_kid_missing:
  "get_unverified_header lib token = Inr headers \<Longrightarrow> falsy (map_of headers ''kid'') \<Longrightarrow>
   header_kid lib token =
     Inl (AuthenticationFailed ''Invalid token header: Token missing key ID (kid)'')"
  by (simp add: header_kid_def)

lemma header_kid_present:
  "get_unverified_header lib token = Inr headers \<Longrightarrow> map_of headers ''kid'' = Some kid \<Longrightarrow>
   kid \<noteq> [] \<Longrightarrow> header_kid lib token = Inr kid"
  by (simp add: header_kid_def)

lemma get_key_miss:
  assumes "header_kid lib token = Inr kid"
    "get_jwks cfg net now1 st = (Inr (Some ks), st1)"
    "find_key lib kid ks = None"
  shows "get_key_for_token lib cfg net now1 now2 st token =
    (case get_jwks cfg net now2 (reset_last_updated st1) of
       (Inl e, st2) \<Rightarrow> (Inl e, st2)
     | (Inr ks2, st2) \<Rightarrow>
         (case search_keys lib kid ks2 of
            Inl e \<Rightarrow> (Inl e, st2)
          | Inr (Some r) \<Rightarrow> (r, st2)
          | Inr None \<Rightarrow>
              (Inl (AuthenticationFailed (''Key ID '' @ kid @ '' not found in JWKS'')), st2)))"
  using assms by (simp add: get_key_for_token_def search_keys_def)

lemma get_key_found:
  assumes "header_kid lib token = Inr kid"
    "get_jwks cfg net now1 st = (Inr (Some ks), st1)"
    "find_key lib kid ks = Some r"
  shows "get_key_for_token lib cfg net now1 now2 st token = (r, st1)"
  using assms by (simp add: get_key_for_token_def search_keys_def)

lemma get_key_miss_log:
  assumes "header_kid lib token = Inr kid"
    "get_jwks cfg net now1 st = (Inr (Some ks), st1)"
    "find_key lib kid ks = None" "CACHE_TTL cfg < now2" "jwks_url cfg = Inr url"
  shows "requests_log (snd (get_key_for_token lib cfg net now1 now2 st token)) =
           requests_log st1 @ [url]"
proof -
  have "requests_log (snd (get_jwks cfg net now2 (reset_last_updated st1))) =
          requests_log st1 @ [url]"
    using assms(4,5) by (simp add: get_jwks_log stale_reset)
  then show ?thesis
    unfolding get_key_miss [OF assms(1,2,3)]
    by (auto split: prod.splits sum.splits option.splits)
qed

lemma get_key_log_bound:
  "length (requests_log (snd (get_key_for_token lib cfg net now1 now2 st token)))
     \<le> length (requests_log st) + 2"
proof -
  have a: "\<And>now s. length (requests_log (snd (get_jwks cfg net now s)))
             \<le> length (requests_log s) + 1"
    by (simp add: get_jwks_log split: sum.splits)
  have b: "\<And>now s r s'. get_jwks cfg net now s = (r, s') \<Longrightarrow>
             length (requests_log s') \<le> length (requests_log s) + 1"
    using a by (metis snd_conv)
  show ?thesis
    apply (simp add: get_key_for_token_def split: sum.splits prod.splits option.splits)
    apply (auto dest!: b)
    done
qed

lemma find_key_find:
  "find_key lib kid ks =
     map_option (\<lambda>kd. case construct lib kd of
                         Inl e \<Rightarrow> Inl (AuthenticationFailed (''Failed to construct key: '' @ str e))
                       | Inr k \<Rightarrow> Inr k)
       (find (\<lambda>kd. map_of kd ''kid'' = Some kid) ks)"
  by (induction ks) simp_all

lemma get_key_refresh_fails:
  assumes "header_kid lib token = Inr kid"
    "get_jwks cfg net now1 st = (Inr (Some ks), st1)"
    "find_key lib kid ks = None"
    "get_jwks cfg net now2 (reset_last_updated st1) = (Inl e, st2)"
  shows "get_key_for_token lib cfg net now1 now2 st token = (Inl e, st2)"
  using assms by (simp add: get_key_miss)

lemma get_key_refresh_found:
  assumes "header_kid lib token = Inr kid"
    "get_jwks cfg net now1 st = (Inr (Some ks), st1)"
    "find_key lib kid ks = None"
    "get_jwks cfg net now2 (reset_last_updated st1) = (Inr (Some ks2), st2)"
    "find_key lib kid ks2 = Some r"
  shows "get_key_for_token lib cfg net now1 now2 st token = (r, st2)"
  using assms by (simp add: get_key_miss search_keys_def)


text \<open>
  Claim C4: key resolution. A token header without a key id makes \<open>get_key_for_token\<close>
  fail at once, the state (and so the request log) unchanged. A key id found in the key
  set the first \<open>get_jwks\<close> returned gives the key constructed from the first entry
  with that id, with no further fetch. When the key id is absent from that set, exactly
  one further fetch is made, whatever the age of the cache, and the lookup is repeated
  on its result: a key id found there gives the key constructed from its entry; when
  the key id is absent from that result too, the failure is the key-not-found one; and
  when the refresh itself fails, that failure is the result. No resolution makes more
  than two fetches: the one the time to live may ask for and the forced one. The forced
  refresh is line 180's reset of \<open>last_updated\<close> to 0, so it needs the clock to read
  more than \<open>CACHE_TTL\<close> seconds, and the URL of the key set to be resolvable.
\<close>

theorem get_key_for_token_resolution:
  assumes "get_unverified_header lib token = Inr headers"
  shows "(falsy (map_of headers ''kid'')
           \<longrightarrow> get_key_for_token lib cfg net now1 now2 st token =
                 (Inl (AuthenticationFailed
                        ''Invalid token header: Token missing key ID (kid)''), st))
       \<and> (map_of headers ''kid'' = Some kid \<and> kid \<noteq> []
           \<and> get_jwks cfg net now1 st = (Inr (Some ks), st1)
           \<and> find (\<lambda>kd. map_of kd ''kid'' = Some kid) ks = Some kd
           \<longrightarrow> get_key_for_token lib cfg net now1 now2 st token =
                 (case construct lib kd of
                    Inl e \<Rightarrow> Inl (AuthenticationFailed (''Failed to construct key: '' @ str e))
                  | Inr k \<Rightarrow> Inr k, st1))
       \<and> (map_of headers ''kid'' = Some kid \<and> kid \<noteq> []
           \<and> get_jwks cfg net now1 st = (Inr (Some ks), st1)
           \<and> (\<forall>kd \<in> set ks. map_of kd ''kid'' \<noteq> Some kid)
           \<and> CACHE_TTL cfg < now2 \<and> jwks_url cfg = Inr url
           \<longrightarrow> requests_log (snd (get_key_for_token lib cfg net now1 now2 st token)) =
                 requests_log st1 @ [url]
               \<and> (\<forall>ks2 st2. get_jwks cfg net now2 (reset_last_updated st1) = (Inr (Some ks2), st2)
                     \<and> (\<forall>kd \<in> set ks2. map_of kd ''kid'' \<noteq> Some kid)
                   \<longrightarrow> get_key_for_token lib cfg net now1 now2 st token =
                         (Inl (AuthenticationFailed
                                (''Key ID '' @ kid @ '' not found in JWKS'')), st2))
               \<and> (\<forall>ks2 st2 kd2.
                     get_jwks cfg net now2 (reset_last_updated st1) = (Inr (Some ks2), st2)
                     \<and> find (\<lambda>kd. map_of kd ''kid'' = Some kid) ks2 = Some kd2
                   \<longrightarrow> get_key_for_token lib cfg net now1 now2 st token =
                         (case construct lib kd2 of
                            Inl e \<Rightarrow>
                              Inl (AuthenticationFailed (''Failed to construct key: '' @ str e))
                          | Inr k \<Rightarrow> Inr k, st2))
               \<and> (\<forall>e st2. get_jwks cfg net now2 (reset_last_updated st1) = (Inl e, st2)
                   \<longrightarrow> get_key_for_token lib cfg net now1 now2 st token = (Inl e, st2)))
       \<and> length (requests_log (snd (get_key_for_token lib cfg net now1 now2 st token)))
           \<le> length (requests_log st) + 2"
proof (intro conjI impI)
  assume "falsy (map_of headers ''kid'')"
  then show "get_key_for_token lib cfg net now1 now2 st token =
      (Inl (AuthenticationFailed ''Invalid token header: Token missing key ID (kid)''), st)"
    by (simp add: get_key_for_token_def header_kid_missing [OF assms])
next
  assume h: "map_of headers ''kid'' = Some kid \<and> kid \<noteq> []
           \<and> get_jwks cfg net now1 st = (Inr (Some ks), st1)
           \<and> find (\<lambda>kd. map_of kd ''kid'' = Some kid) ks = Some kd"
  then have k: "header_kid lib token = Inr kid"
    using header_kid_present [OF assms] by simp
  from h have g: "get_jwks cfg net now1 st = (Inr (Some ks), st1)" by simp
  from h have f: "find_key lib kid ks =
      Some (case construct lib kd of
              Inl e \<Rightarrow> Inl (AuthenticationFailed (''Failed to construct key: '' @ str e))
            | Inr k \<Rightarrow> Inr k)"
    by (simp add: find_key_find)
  show "get_key_for_token lib cfg net now1 now2 st token =
                 (case construct lib kd of
                    Inl e \<Rightarrow> Inl (AuthenticationFailed (''Failed to construct key: '' @ str e))
                  | Inr k \<Rightarrow> Inr k, st1)"
    by (rule get_key_found [OF k g f])
next
  assume h: "map_of headers ''kid'' = Some kid \<and> kid \<noteq> []
           \<and> get_jwks cfg net now1 st = (Inr (Some ks), st1)
           \<and> (\<forall>kd \<in> set ks. map_of kd ''kid'' \<noteq> Some kid)
           \<and> CACHE_TTL cfg < now2 \<and> jwks_url cfg = Inr url"
  then have k: "header_kid lib token = Inr kid"
    using header_kid_present [OF assms] by simp
  from h have g: "get_jwks cfg net now1 st = (Inr (Some ks), st1)" by simp
  from h have f: "find_key lib kid ks = None" by (simp add: find_key_None_iff)
  show "requests_log (snd (get_key_for_token lib cfg net now1 now2 st token)) =
          requests_log st1 @ [url]"
    using get_key_miss_log [OF k g f] h by simp
  show "\<forall>ks2 st2. get_jwks cfg net now2 (reset_last_updated st1) = (Inr (Some ks2), st2)
                     \<and> (\<forall>kd \<in> set ks2. map_of kd ''kid'' \<noteq> Some kid)
                   \<longrightarrow> get_key_for_token lib cfg net now1 now2 st token =
                         (Inl (AuthenticationFailed
                                (''Key ID '' @ kid @ '' not found in JWKS'')), st2)"
  proof (intro allI impI)
    fix ks2 st2
    assume a: "get_jwks cfg net now2 (reset_last_updated st1) = (Inr (Some ks2), st2)
                 \<and> (\<forall>kd \<in> set ks2. map_of kd ''kid'' \<noteq> Some kid)"
    then have "find_key lib kid ks2 = None" by (simp add: find_key_None_iff)
    with a show "get_key_for_token lib cfg net now1 now2 st token =
        (Inl (AuthenticationFailed (''Key ID '' @ kid @ '' not found in JWKS'')), st2)"
      by (simp add: get_key_miss [OF k g f] search_keys_def)
  qed
  show "\<forall>ks2 st2 kd2.
                     get_jwks cfg net now2 (reset_last_updated st1) = (Inr (Some ks2), st2)
                     \<and> find (\<lambda>kd. map_of kd ''kid'' = Some kid) ks2 = Some kd2
                   \<longrightarrow> get_key_for_token lib cfg net now1 now2 st token =
                         (case construct lib kd2 of
                            Inl e \<Rightarrow>
                              Inl (AuthenticationFailed (''Failed to construct key: '' @ str e))
                          | Inr k \<Rightarrow> Inr k, st2)"
  proof (intro allI impI)
    fix ks2 st2 kd2
    assume a: "get_jwks cfg net now2 (reset_last_updated st1) = (Inr (Some ks2), st2)
                     \<and> find (\<lambda>kd. map_of kd ''kid'' = Some kid) ks2 = Some kd2"
    then have f2: "find_key lib kid ks2 =
        Some (case construct lib kd2 of
                Inl e \<Rightarrow> Inl (AuthenticationFailed (''Failed to construct key: '' @ str e))
              | Inr k \<Rightarrow> Inr k)"
      by (simp add: find_key_find)
    from a have g2: "get_jwks cfg net now2 (reset_last_updated st1) = (Inr (Some ks2), st2)"
      by simp
    show "get_key_for_token lib cfg net now1 now2 st token =
                         (case construct lib kd2 of
                            Inl e \<Rightarrow>
                              Inl (AuthenticationFailed (''Failed to construct key: '' @ str e))
                          | Inr k \<Rightarrow> Inr k, st2)"
      by (rule get_key_refresh_found [OF k g f g2 f2])
  qed
  show "\<forall>e st2. get_jwks cfg net now2 (reset_last_updated st1) = (Inl e, st2)
                   \<longrightarrow> get_key_for_token lib cfg net now1 now2 st token = (Inl e, st2)"
    using get_key_refresh_fails [OF k g f] by blast
next
  show "length (requests_log (snd (get_key_for_token lib cfg net now1 now2 st token)))
           \<le> length (requests_log st) + 2"
    by (rule get_key_log_bound)
qed

lemma header_t6:
  "get_unverified_header lib_example ''t6'' = Inr [(''alg'', ''RS256''), (''kid'', ''unknown'')]"
  by (simp add: lib_example_def jose_example_def tokens_example_def)

lemma header_t7:
  "get_unverified_header lib_example ''t7'' = Inr [(''alg'', ''RS256'')]"
  by (simp add: lib_example_def jose_example_def tokens_example_def)

lemma get_jwks_cached_state:
  "get_jwks cfg_example net_ok 1100 cached_state = (Inr (Some [key_k1]), cached_state)"
  by (simp add: get_jwks_fresh stale_def jwks_cache_cached_state cfg_example_def)

lemma get_jwks_forced:
  "get_jwks cfg_example net_ok 1101 (reset_last_updated cached_state) =
     (Inr (Some [key_k1]), refreshed_state)"
proof -
  have s: "stale cfg_example 1101 (reset_last_updated cached_state)"
    by (rule stale_reset) (simp add: cfg_example_def)
  have n: "net_ok url_example (length (requests_log (reset_last_updated cached_state))) =
             JsonObject (Some [key_k1])"
    by (simp add: net_ok_def)
  show ?thesis
    using get_jwks_success [where cfg = cfg_example and now = 1101
        and st = "reset_last_updated cached_state" and url = url_example and net = net_ok
        and ks = "[key_k1]"] s jwks_url_example n
    by (simp add: refreshed_state_def cached_state_def reset_last_updated_def)
qed

lemma header_t10:
  "get_unverified_header lib_example ''t10'' = Inr [(''alg'', ''RS256''), (''kid'', ''k2'')]"
  by (simp add: lib_example_def jose_example_def tokens_example_def)

lemma header_t1:
  "get_unverified_header lib_example ''t1'' = Inr header_k1"
  by (simp add: lib_example_def jose_example_def tokens_example_def)

lemma get_jwks_cached_rotated:
  "get_jwks cfg_example net_rotated 1100 cached_state = (Inr (Some [key_k1]), cached_state)"
  by (simp add: get_jwks_fresh stale_def jwks_cache_cached_state cfg_example_def)

lemma get_jwks_forced_rotated:
  "get_jwks cfg_example net_rotated 1101 (reset_last_updated cached_state) =
     (Inr (Some [key_k1, key_k2]), rotated_state)"
proof -
  have s: "stale cfg_example 1101 (reset_last_updated cached_state)"
    by (rule stale_reset) (simp add: cfg_example_def)
  have n: "net_rotated url_example (length (requests_log (reset_last_updated cached_state))) =
             JsonObject (Some [key_k1, key_k2])"
    by (simp add: net_rotated_def cached_state_def)
  show ?thesis
    using get_jwks_success [where cfg = cfg_example and now = 1101
        and st = "reset_last_updated cached_state" and url = url_example and net = net_rotated
        and ks = "[key_k1, key_k2]"] s jwks_url_example n
    by (simp add: rotated_state_def cached_state_def reset_last_updated_def)
qed

theorem get_key_for_token_resolution_witness:
  "get_key_for_token lib_example cfg_example net_ok 1100 1101 cached_state ''t7'' =
     (Inl (AuthenticationFailed ''Invalid token header: Token missing key ID (kid)''),
      cached_state)
   \<and> get_key_for_token lib_example cfg_example net_ok 1100 1101 cached_state ''t1'' =
     (Inr ''P'', cached_state)
   \<and> get_key_for_token lib_example cfg_example net_ok 1100 1101 cached_state ''t6'' =
     (Inl (AuthenticationFailed ''Key ID unknown not found in JWKS''), refreshed_state)
   \<and> requests_log (snd (get_key_for_token lib_example cfg_example net_ok 1100 1101
                          cached_state ''t6'')) = requests_log cached_state @ [url_example]
   \<and> get_key_for_token lib_example cfg_example net_rotated 1100 1101 cached_state ''t10'' =
     (Inr ''P2'', rotated_state)"
proof -
  have a: "get_key_for_token lib_example cfg_example net_ok 1100 1101 cached_state ''t7'' =
     (Inl (AuthenticationFailed ''Invalid token header: Token missing key ID (kid)''),
      cached_state)"
    using get_key_for_token_resolution [OF header_t7, where cfg = cfg_example and net = net_ok
        and ?now1.0 = 1100 and ?now2.0 = 1101 and st = cached_state]
    by simp
  have hyp1: "map_of header_k1 ''kid'' = Some ''k1'' \<and> ''k1'' \<noteq> []
      \<and> get_jwks cfg_example net_ok 1100 cached_state = (Inr (Some [key_k1]), cached_state)
      \<and> find (\<lambda>kd. map_of kd ''kid'' = Some ''k1'') [key_k1] = Some key_k1"
    using get_jwks_cached_state by (simp add: header_k1_def key_k1_def)
  have f: "get_key_for_token lib_example cfg_example net_ok 1100 1101 cached_state ''t1'' =
     (Inr ''P'', cached_state)"
    using get_key_for_token_resolution [OF header_t1, where kid = "''k1''"
      and cfg = cfg_example and net = net_ok and ?now1.0 = 1100 and st = cached_state
      and ks = "[key_k1]" and ?st1.0 = cached_state and ?now2.0 = 1101 and kd = key_k1,
      THEN conjunct2, THEN conjunct1, THEN mp, OF hyp1]
    by (simp add: lib_example_def jose_example_def key_k1_def)
  have c: "CACHE_TTL cfg_example < 1101" by (simp add: cfg_example_def)
  have k: "\<forall>kd \<in> set [key_k1]. map_of kd ''kid'' \<noteq> Some ''unknown''"
    by (simp add: key_k1_def)
  have hyp: "map_of [(''alg'', ''RS256''), (''kid'', ''unknown'')] ''kid'' = Some ''unknown''
      \<and> ''unknown'' \<noteq> []
      \<and> get_jwks cfg_example net_ok 1100 cached_state = (Inr (Some [key_k1]), cached_state)
      \<and> (\<forall>kd \<in> set [key_k1]. map_of kd ''kid'' \<noteq> Some ''unknown'')
      \<and> CACHE_TTL cfg_example < 1101 \<and> jwks_url cfg_example = Inr url_example"
    using get_jwks_cached_state c k jwks_url_example by simp
  note r = get_key_for_token_resolution [OF header_t6, where kid = "''unknown''"
      and cfg = cfg_example and net = net_ok and ?now1.0 = 1100 and st = cached_state
      and ks = "[key_k1]" and ?st1.0 = cached_state and ?now2.0 = 1101 and url = url_example,
      THEN conjunct2, THEN conjunct2, THEN conjunct1, THEN mp, OF hyp]
  from r have b: "requests_log (snd (get_key_for_token lib_example cfg_example net_ok 1100 1101
                          cached_state ''t6'')) = requests_log cached_state @ [url_example]"
    by (rule conjunct1)
  from r have d: "\<forall>ks2 st2. get_jwks cfg_example net_ok 1101 (reset_last_updated cached_state) =
                        (Inr (Some ks2), st2)
                     \<and> (\<forall>kd \<in> set ks2. map_of kd ''kid'' \<noteq> Some ''unknown'')
                   \<longrightarrow> get_key_for_token lib_example cfg_example net_ok 1100 1101 cached_state ''t6'' =
                         (Inl (AuthenticationFailed
                                (''Key ID '' @ ''unknown'' @ '' not found in JWKS'')), st2)"
    by (rule conjunct2 [THEN conjunct1])
  from d [rule_format, of "[key_k1]" refreshed_state] get_jwks_forced k
  have e: "get_key_for_token lib_example cfg_example net_ok 1100 1101 cached_state ''t6'' =
     (Inl (AuthenticationFailed ''Key ID unknown not found in JWKS''), refreshed_state)"
    by simp
  have k2: "\<forall>kd \<in> set [key_k1]. map_of kd ''kid'' \<noteq> Some ''k2''"
    by (simp add: key_k1_def)
  have hyp2: "map_of [(''alg'', ''RS256''), (''kid'', ''k2'')] ''kid'' = Some ''k2''
      \<and> ''k2'' \<noteq> []
      \<and> get_jwks cfg_example net_rotated 1100 cached_state = (Inr (Some [key_k1]), cached_state)
      \<and> (\<forall>kd \<in> set [key_k1]. map_of kd ''kid'' \<noteq> Some ''k2'')
      \<and> CACHE_TTL cfg_example < 1101 \<and> jwks_url cfg_example = Inr url_example"
    using get_jwks_cached_rotated c k2 jwks_url_example by simp
  note r2 = get_key_for_token_resolution [OF header_t10, where kid = "''k2''"
      and cfg = cfg_example and net = net_rotated and ?now1.0 = 1100 and st = cached_state
      and ks = "[key_k1]" and ?st1.0 = cached_state and ?now2.0 = 1101 and url = url_example,
      THEN conjunct2, THEN conjunct2, THEN conjunct1, THEN mp, OF hyp2,
      THEN conjunct2, THEN conjunct2, THEN conjunct1, rule_format,
      of "[key_k1, key_k2]" rotated_state key_k2]
  have g: "get_key_for_token lib_example cfg_example net_rotated 1100 1101 cached_state ''t10'' =
     (Inr ''P2'', rotated_state)"
    using r2 get_jwks_forced_rotated
    by (simp add: lib_example_def jose_example_def key_k1_def key_k2_def)
  show ?thesis using a f b e g by simp
qed

subsection \<open>Token validation\<close>

lemma not_falsy:
  "\<not> falsy x \<longleftrightarrow> (\<exists>s. x = Some s \<and> s \<noteq> [])"
  by (cases x) auto

lemma validate_token_config:
  "falsy (OIDC_ISSUER cfg) \<or> falsy (OIDC_AUDIENCE cfg) \<Longrightarrow>
   validate_token lib cfg net now1 now2 st token =
     (Inl (AuthenticationFailed ''OIDC configuration incomplete''), st)"
  by (auto simp add: validate_token_def)

lemma validate_token_resolved:
  assumes "OIDC_ISSUER cfg = Some iss" "iss \<noteq> []" "OIDC_AUDIENCE cfg = Some aud" "aud \<noteq> []"
    "get_key_for_token lib cfg net now1 now2 st token = (Inr k, st1)"
  shows "validate_token lib cfg net now1 now2 st token =
     (case decode lib token k [''RS256''] aud iss of
        Inl e \<Rightarrow> (Inl (decode_handler aud iss e), st1)
      | Inr payload \<Rightarrow> (Inr payload, st1))"
  using assms by (simp add: validate_token_def)

lemma validate_token_success:
  assumes "validate_token lib cfg net now1 now2 st token = (Inr payload, st1)"
  shows "\<exists>k aud iss. OIDC_ISSUER cfg = Some iss \<and> iss \<noteq> []
     \<and> OIDC_AUDIENCE cfg = Some aud \<and> aud \<noteq> []
     \<and> get_key_for_token lib cfg net now1 now2 st token = (Inr k, st1)
     \<and> decode lib token k [''RS256''] aud iss = Inr payload"
proof -
  from assms have c: "\<not> falsy (OIDC_ISSUER cfg)" "\<not> falsy (OIDC_AUDIENCE cfg)"
    by (auto simp add: validate_token_def split: if_splits)
  then obtain iss aud where ia: "OIDC_ISSUER cfg = Some iss" "iss \<noteq> []"
      "OIDC_AUDIENCE cfg = Some aud" "aud \<noteq> []"
    by (auto simp add: not_falsy)
  with assms show ?thesis
    by (auto simp add: validate_token_def split: prod.splits sum.splits)
qed

lemma header_kid_decode [simp]:
  "header_kid (lib\<lparr>decode := d\<rparr>) token = header_kid lib token"
  by (simp add: header_kid_def)

lemma find_key_decode [simp]:
  "find_key (lib\<lparr>decode := d\<rparr>) kid ks = find_key lib kid ks"
  by (induction ks) simp_all

lemma search_keys_decode [simp]:
  "search_keys (lib\<lparr>decode := d\<rparr>) kid ks = search_keys lib kid ks"
  by (simp add: search_keys_def split: option.splits)

lemma get_key_for_token_decode [simp]:
  "get_key_for_token (lib\<lparr>decode := d\<rparr>) cfg net now1 now2 st token =
   get_key_for_token lib cfg net now1 now2 st token"
  by (simp add: get_key_for_token_def cong: sum.case_cong prod.case_cong option.case_cong)

lemma get_key_k1:
  assumes "get_unverified_header lib_example token = Inr headers"
    "map_of headers ''kid'' = Some ''k1''"
  shows "get_key_for_token lib_example cfg_example net_ok 1100 1101 cached_state token =
           (Inr ''P'', cached_state)"
proof -
  have h: "header_kid lib_example token = Inr ''k1''"
    using assms by (simp add: header_kid_present)
  have f: "find_key lib_example ''k1'' [key_k1] = Some (Inr ''P'')"
    by (simp add: key_k1_def lib_example_def jose_example_def)
  show ?thesis
    by (rule get_key_found [OF h get_jwks_cached_state f])
qed

lemma header_t5:
  "get_unverified_header lib_example ''t5'' = Inr [(''alg'', ''HS256''), (''kid'', ''k1'')]"
  by (simp add: lib_example_def jose_example_def tokens_example_def)

lemma decode_t5:
  "decode lib_example ''t5'' ''P'' [''RS256''] ''app1'' ''https://idp.example/'' =
     Inl (JWTError ''The specified alg value is not allowed'')"
  by (simp add: lib_example_def jose_example_def tokens_example_def)

text \<open>
  Claim C8, as the code has it. With the issuer or the audience unset or empty,
  \<^verbatim>\<open>validate_token\<close> raises AuthenticationFailed with the message
  \<^verbatim>\<open>OIDC configuration incomplete\<close> for the request at hand: on an instance with a
  loaded key set and the token \<^verbatim>\<open>t1\<close>, that is the result, and the state is the one
  before the call.
\<close>

theorem validate_token_missing_config_counterexample:
  "validate_token lib_example cfg_unset net_ok 1100 1101 cached_state ''t1'' =
     (Inl (AuthenticationFailed ''OIDC configuration incomplete''), cached_state)"
  by (simp add: validate_token_def cfg_unset_def)

text \<open>
  Claim C8, amended. Whenever the issuer or the audience is unset or empty,
  \<^verbatim>\<open>validate_token\<close> fails with AuthenticationFailed
  \<^verbatim>\<open>OIDC configuration incomplete\<close> before any key is resolved (the state, and so the
  request log, is unchanged), the body of \<^verbatim>\<open>authenticate\<close> passes the failure on
  without touching the customer table, and the last \<^verbatim>\<open>except\<close> clause reports it as
  AuthenticationFailed \<^verbatim>\<open>Authentication failed: OIDC configuration incomplete\<close>.
\<close>

theorem validate_token_missing_config:
  assumes "falsy (OIDC_ISSUER cfg) \<or> falsy (OIDC_AUDIENCE cfg)"
  shows "validate_token lib cfg net now1 now2 st token =
           (Inl (AuthenticationFailed ''OIDC configuration incomplete''), st)
       \<and> authenticate_token lib cfg net now1 now2 st d token =
           (Inl (AuthenticationFailed ''OIDC configuration incomplete''), st, d)
       \<and> authenticate_handler (AuthenticationFailed ''OIDC configuration incomplete'') =
           AuthenticationFailed ''Authentication failed: OIDC configuration incomplete''"
  using assms
  by (simp add: authenticate_token_def validate_token_config authenticate_handler_def)

theorem validate_token_missing_config_witness:
  "validate_token lib_example (cfg_example\<lparr>OIDC_AUDIENCE := Some []\<rparr>) net_ok 1100 1101
      cached_state ''t1'' =
     (Inl (AuthenticationFailed ''OIDC configuration incomplete''), cached_state)
   \<and> authenticate_token lib_example (cfg_example\<lparr>OIDC_AUDIENCE := Some []\<rparr>) net_ok 1100 1101
      cached_state empty_db ''t1'' =
     (Inl (AuthenticationFailed ''OIDC configuration incomplete''), cached_state, empty_db)"
proof -
  have h: "falsy (OIDC_ISSUER (cfg_example\<lparr>OIDC_AUDIENCE := Some []\<rparr>))
           \<or> falsy (OIDC_AUDIENCE (cfg_example\<lparr>OIDC_AUDIENCE := Some []\<rparr>))"
    by simp
  show ?thesis
    using validate_token_missing_config [OF h, of lib_example net_ok 1100 1101 cached_state
        "''t1''" empty_db]
    by simp
qed

text \<open>
  Claim C10. \<^verbatim>\<open>validate_token\<close> asks python-jose for RS256 only: its result does not
  depend on what the library would answer for any other list of algorithms, so a
  library that accepted a token under another algorithm changes nothing. And when the
  library, asked for RS256 only, rejects the token with a JWTError (as it does for a
  header declaring another algorithm), \<^verbatim>\<open>validate_token\<close> raises AuthenticationFailed
  \<^verbatim>\<open>Token validation failed: ...\<close> with the library's message.
\<close>

theorem validate_token_only_RS256:
  "((\<forall>t k a i. d t k [''RS256''] a i = decode lib t k [''RS256''] a i)
      \<longrightarrow> validate_token (lib\<lparr>decode := d\<rparr>) cfg net now1 now2 st token =
          validate_token lib cfg net now1 now2 st token)
   \<and> (OIDC_ISSUER cfg = Some iss \<and> iss \<noteq> [] \<and> OIDC_AUDIENCE cfg = Some aud \<and> aud \<noteq> []
       \<and> get_key_for_token lib cfg net now1 now2 st token = (Inr k, st1)
       \<and> decode lib token k [''RS256''] aud iss = Inl (JWTError m)
      \<longrightarrow> validate_token lib cfg net now1 now2 st token =
          (Inl (AuthenticationFailed (''Token validation failed: '' @ m)), st1))"
proof (intro conjI impI)
  assume "\<forall>t k a i. d t k [''RS256''] a i = decode lib t k [''RS256''] a i"
  then show "validate_token (lib\<lparr>decode := d\<rparr>) cfg net now1 now2 st token =
          validate_token lib cfg net now1 now2 st token"
    by (simp add: validate_token_def Let_def split: prod.splits sum.splits)
next
  assume "OIDC_ISSUER cfg = Some iss \<and> iss \<noteq> [] \<and> OIDC_AUDIENCE cfg = Some aud \<and> aud \<noteq> []
       \<and> get_key_for_token lib cfg net now1 now2 st token = (Inr k, st1)
       \<and> decode lib token k [''RS256''] aud iss = Inl (JWTError m)"
  then show "validate_token lib cfg net now1 now2 st token =
          (Inl (AuthenticationFailed (''Token validation failed: '' @ m)), st1)"
    by (simp add: validate_token_resolved)
qed

theorem validate_token_only_RS256_witness:
  "validate_token
      (lib_example\<lparr>decode := (\<lambda>t k algs a i.
          if algs = [''RS256''] then decode lib_example t k algs a i else Inr [])\<rparr>)
      cfg_example net_ok 1100 1101 cached_state ''t5'' =
     validate_token lib_example cfg_example net_ok 1100 1101 cached_state ''t5''
   \<and> validate_token lib_example cfg_example net_ok 1100 1101 cached_state ''t5'' =
     (Inl (AuthenticationFailed
        ''Token validation failed: The specified alg value is not allowed''), cached_state)"
proof -
  have k: "get_key_for_token lib_example cfg_example net_ok 1100 1101 cached_state ''t5'' =
             (Inr ''P'', cached_state)"
    by (rule get_key_k1 [OF header_t5]) simp
  have c: "OIDC_ISSUER cfg_example = Some ''https://idp.example/''"
      "OIDC_AUDIENCE cfg_example = Some ''app1''"
    by (simp_all add: cfg_example_def)
  show ?thesis
    using validate_token_only_RS256 [where lib = lib_example and cfg = cfg_example
        and net = net_ok and ?now1.0 = 1100 and ?now2.0 = 1101 and st = cached_state
        and token = "''t5''" and iss = "''https://idp.example/''" and aud = "''app1''"
        and k = "''P''" and ?st1.0 = cached_state
        and m = "''The specified alg value is not allowed''"
        and d = "\<lambda>t k algs a i.
          if algs = [''RS256''] then decode lib_example t k algs a i else Inr []"]
      k c decode_t5
    by simp
qed

subsection \<open>The entry point\<close>

lemma authenticate_handler_failed:
  "\<exists>m. authenticate_handler e = AuthenticationFailed m"
  by (cases e) (simp_all add: authenticate_handler_def)

lemma authenticate_handler_AuthenticationFailed:
  "authenticate_handler (AuthenticationFailed m) =
     AuthenticationFailed (''Authentication failed: '' @ m)"
  by (simp add: authenticate_handler_def)

lemma authenticate_wellformed:
  assumes "split (get_authorization_header request) = [scheme, tokb]"
    "lower scheme = ''bearer''" "bytes_decode tokb = Inr token"
  shows "authenticate lib cfg net now1 now2 st d request =
    (case authenticate_token lib cfg net now1 now2 st d token of
       (Inl e, st1, d1) \<Rightarrow> (Inl (authenticate_handler e), st1, d1)
     | (Inr r, st1, d1) \<Rightarrow> (Inr (Some r), st1, d1))"
  using assms by (simp add: authenticate_def)

lemma authenticate_token_error_db:
  "authenticate_token lib cfg net now1 now2 st d token = (Inl e, st1, d1) \<Longrightarrow> d1 = d"
  by (auto simp add: authenticate_token_def split: prod.splits sum.splits if_splits)

lemma authenticate_token_failure:
  "validate_token lib cfg net now1 now2 st token = (Inl e, st1) \<Longrightarrow>
   authenticate_token lib cfg net now1 now2 st d token = (Inl e, st1, d)"
  by (simp add: authenticate_token_def)

lemma authenticate_token_success:
  "authenticate_token lib cfg net now1 now2 st d token = (Inr (c, t), st1, d1) \<Longrightarrow>
   t = token \<and> (\<exists>payload. validate_token lib cfg net now1 now2 st token = (Inr payload, st1)
      \<and> truthy (get payload ''sub'')
      \<and> reconcile d (get payload ''sub'') payload = Inr (c, d1))"
  by (auto simp add: authenticate_token_def split: prod.splits sum.splits if_splits)

lemma authenticate_token_accept:
  assumes "validate_token lib cfg net now1 now2 st token = (Inr payload, st1)"
    "truthy (get payload ''sub'')"
    "reconcile d (get payload ''sub'') payload = Inr (c, d1)"
  shows "authenticate_token lib cfg net now1 now2 st d token = (Inr (c, token), st1, d1)"
  using assms by (simp add: authenticate_token_def)

lemma authenticate_token_storage_failure:
  assumes "validate_token lib cfg net now1 now2 st token = (Inr payload, st1)"
    "truthy (get payload ''sub'')"
    "reconcile d (get payload ''sub'') payload = Inl e"
  shows "authenticate_token lib cfg net now1 now2 st d token = (Inl e, st1, d)"
  using assms by (simp add: authenticate_token_def)

lemma authenticate_outcome:
  assumes "split (get_authorization_header request) = [scheme, tokb]"
    "lower scheme = ''bearer''" "bytes_decode tokb = Inr token"
  shows "(\<exists>m st1. authenticate lib cfg net now1 now2 st d request =
            (Inl (AuthenticationFailed m), st1, d))
       \<or> (\<exists>k aud iss payload st1. OIDC_ISSUER cfg = Some iss \<and> OIDC_AUDIENCE cfg = Some aud
            \<and> get_key_for_token lib cfg net now1 now2 st token = (Inr k, st1)
            \<and> decode lib token k [''RS256''] aud iss = Inr payload)"
proof (cases "authenticate_token lib cfg net now1 now2 st d token")
  case (fields r st1 d1)
  show ?thesis
  proof (cases r)
    case (Inl e)
    with fields have "d1 = d"
      by (simp add: authenticate_token_error_db)
    moreover obtain m where "authenticate_handler e = AuthenticationFailed m"
      using authenticate_handler_failed by blast
    ultimately have "authenticate lib cfg net now1 now2 st d request =
        (Inl (AuthenticationFailed m), st1, d)"
      using fields Inl by (simp add: authenticate_wellformed [OF assms])
    then show ?thesis by blast
  next
    case (Inr p)
    obtain c t where p: "p = (c, t)" by (cases p)
    from fields Inr p
    have "authenticate_token lib cfg net now1 now2 st d token = (Inr (c, t), st1, d1)"
      by simp
    from authenticate_token_success [OF this] obtain payload
      where v: "validate_token lib cfg net now1 now2 st token = (Inr payload, st1)"
      by auto
    from validate_token_success [OF v] obtain k aud iss
      where "OIDC_ISSUER cfg = Some iss" "OIDC_AUDIENCE cfg = Some aud"
        "get_key_for_token lib cfg net now1 now2 st token = (Inr k, st1)"
        "decode lib token k [''RS256''] aud iss = Inr payload"
      by auto
    then have "\<exists>k aud iss payload st1. OIDC_ISSUER cfg = Some iss \<and> OIDC_AUDIENCE cfg = Some aud
            \<and> get_key_for_token lib cfg net now1 now2 st token = (Inr k, st1)
            \<and> decode lib token k [''RS256''] aud iss = Inr payload"
      by blast
    then show ?thesis ..
  qed
qed

lemma authenticate_decode_failure:
  assumes "split (get_authorization_header request) = [scheme, tokb]"
    "lower scheme = ''bearer''" "bytes_decode tokb = Inr token"
    "OIDC_ISSUER cfg = Some iss" "iss \<noteq> []" "OIDC_AUDIENCE cfg = Some aud" "aud \<noteq> []"
    "get_key_for_token lib cfg net now1 now2 st token = (Inr k, st1)"
    "decode lib token k [''RS256''] aud iss = Inl e"
    "decode_handler aud iss e = AuthenticationFailed m"
  shows "authenticate lib cfg net now1 now2 st d request =
     (Inl (AuthenticationFailed (''Authentication failed: '' @ m)), st1, d)"
proof -
  have "validate_token lib cfg net now1 now2 st token = (Inl (AuthenticationFailed m), st1)"
    using assms(4-10) by (simp add: validate_token_resolved)
  then have "authenticate_token lib cfg net now1 now2 st d token =
      (Inl (AuthenticationFailed m), st1, d)"
    by (rule authenticate_token_failure)
  then show ?thesis
    by (simp add: authenticate_wellformed [OF assms(1-3)]
        authenticate_handler_AuthenticationFailed)
qed

lemma split_bearer:
  "split (get_authorization_header (Some ''Bearer t1'')) = [''Bearer'', ''t1'']"
  "split (get_authorization_header (Some ''Bearer t3'')) = [''Bearer'', ''t3'']"
  "split (get_authorization_header (Some ''Bearer t4'')) = [''Bearer'', ''t4'']"
  "split (get_authorization_header (Some ''Bearer t8'')) = [''Bearer'', ''t8'']"
  "split (get_authorization_header (Some ''Bearer t2'')) = [''Bearer'', ''t2'']"
  "split (get_authorization_header (Some ''Bearer t9'')) = [''Bearer'', ''t9'']"
  "split (get_authorization_header (Some ''Bearer t11'')) = [''Bearer'', ''t11'']"
  by (simp_all add: get_authorization_header_def split_def is_space_def)

lemma lower_bearer: "lower ''Bearer'' = ''bearer''"
  by (simp add: lower_def lower_char_def)

lemma bytes_decode_tokens:
  "bytes_decode ''t1'' = Inr ''t1''" "bytes_decode ''t3'' = Inr ''t3''"
  "bytes_decode ''t4'' = Inr ''t4''" "bytes_decode ''t8'' = Inr ''t8''"
  "bytes_decode ''t2'' = Inr ''t2''" "bytes_decode ''t9'' = Inr ''t9''"
  "bytes_decode ''t11'' = Inr ''t11''"
  by (simp_all add: bytes_decode_def)

lemma header_k1_tokens:
  "get_unverified_header lib_example ''t1'' = Inr header_k1"
  "get_unverified_header lib_example ''t3'' = Inr header_k1"
  "get_unverified_header lib_example ''t4'' = Inr header_k1"
  "get_unverified_header lib_example ''t8'' = Inr header_k1"
  "get_unverified_header lib_example ''t2'' = Inr header_k1"
  "get_unverified_header lib_example ''t9'' = Inr header_k1"
  "get_unverified_header lib_example ''t11'' = Inr header_k1"
  by (simp_all add: lib_example_def jose_example_def tokens_example_def)

lemma kid_header_k1: "map_of header_k1 ''kid'' = Some ''k1''"
  by (simp add: header_k1_def)

lemma cfg_example_simps:
  "OIDC_ISSUER cfg_example = Some ''https://idp.example/''"
  "OIDC_AUDIENCE cfg_example = Some ''app1''"
  by (simp_all add: cfg_example_def)

lemma find_key_k1: "find_key lib_example ''k1'' [key_k1] = Some (Inr ''P'')"
  by (simp add: key_k1_def lib_example_def jose_example_def)

lemma decode_tokens:
  "decode lib_example ''t1'' ''P'' [''RS256''] ''app1'' ''https://idp.example/'' = Inr payload_u1"
  "decode lib_example ''t3'' ''P'' [''RS256''] ''app1'' ''https://idp.example/'' =
     Inl (JWTClaimsError ''Invalid audience'')"
  "decode lib_example ''t4'' ''P'' [''RS256''] ''app1'' ''https://idp.example/'' =
     Inl (JWTError ''Signature verification failed.'')"
  "decode lib_example ''t8'' ''P'' [''RS256''] ''app1'' ''https://idp.example/'' =
     Inl (ExpiredSignatureError ''Signature has expired.'')"
  "decode lib_example ''t2'' ''P'' [''RS256''] ''app1'' ''https://idp.example/'' =
     Inl (ExpiredSignatureError ''Signature has expired.'')"
  "decode lib_example ''t9'' ''P'' [''RS256''] ''app1'' ''https://idp.example/'' =
     Inl (JWTError ''Signature verification failed.'')"
  "decode lib_example ''t11'' ''P'' [''RS256''] ''app1'' ''https://idp.example/'' =
     Inr payload_u2"
  by (simp_all add: lib_example_def jose_example_def tokens_example_def header_k1_def
      payload_u1_def payload_app2_def payload_u2_def)

lemma get_key_tokens:
  "get_key_for_token lib_example cfg_example net_ok 1100 1101 cached_state ''t1'' =
     (Inr ''P'', cached_state)"
  "get_key_for_token lib_example cfg_example net_ok 1100 1101 cached_state ''t3'' =
     (Inr ''P'', cached_state)"
  "get_key_for_token lib_example cfg_example net_ok 1100 1101 cached_state ''t4'' =
     (Inr ''P'', cached_state)"
  "get_key_for_token lib_example cfg_example net_ok 1100 1101 cached_state ''t8'' =
     (Inr ''P'', cached_state)"
  "get_key_for_token lib_example cfg_example net_ok 1100 1101 cached_state ''t2'' =
     (Inr ''P'', cached_state)"
  "get_key_for_token lib_example cfg_example net_ok 1100 1101 cached_state ''t9'' =
     (Inr ''P'', cached_state)"
  "get_key_for_token lib_example cfg_example net_ok 1100 1101 cached_state ''t11'' =
     (Inr ''P'', cached_state)"
  by (rule get_key_k1 [OF _ kid_header_k1], rule header_k1_tokens)+

lemma not_empty_example: "''https://idp.example/'' \<noteq> []" "''app1'' \<noteq> []"
  by simp_all

lemma split_examples:
  "split (get_authorization_header (Some ''Basic dXNlcg=='')) = [''Basic'', ''dXNlcg=='']"
  "split (get_authorization_header (Some ''BeArEr'')) = [''BeArEr'']"
  "split (get_authorization_header (Some ''bearer t1 t2'')) = [''bearer'', ''t1'', ''t2'']"
  by (simp_all add: get_authorization_header_def split_def is_space_def)

lemma lower_examples:
  "lower ''Basic'' = ''basic''" "lower ''BeArEr'' = ''bearer''" "lower ''bearer'' = ''bearer''"
  by (simp_all add: lower_def lower_char_def)

text \<open>
  Claim C5. The header state machine of \<^verbatim>\<open>authenticate\<close>. A request without an
  Authorization header, with one that holds no part at all, or with one whose first
  part is not \<^verbatim>\<open>bearer\<close> once lowered, gives None, and neither the cache nor the
  customer table changes. A header whose first part is \<^verbatim>\<open>bearer\<close> once lowered and
  that does not split into exactly two parts raises AuthenticationFailed
  \<^verbatim>\<open>Invalid token header. No credentials provided.\<close>, again without any change. Every
  other outcome comes from a header of exactly two parts with the bearer scheme; and
  for such a header whose second part decodes, the outcome is that of the body of the
  \<^verbatim>\<open>try\<close> on the token, its exceptions converted by the \<^verbatim>\<open>except\<close> clauses.
\<close>

theorem authenticate_header_state_machine:
  "(request = None \<longrightarrow> authenticate lib cfg net now1 now2 st d request = (Inr None, st, d))
   \<and> (split (get_authorization_header request) = []
        \<or> lower (hd (split (get_authorization_header request))) \<noteq> ''bearer''
      \<longrightarrow> authenticate lib cfg net now1 now2 st d request = (Inr None, st, d))
   \<and> (split (get_authorization_header request) \<noteq> []
        \<and> lower (hd (split (get_authorization_header request))) = ''bearer''
        \<and> length (split (get_authorization_header request)) \<noteq> 2
      \<longrightarrow> authenticate lib cfg net now1 now2 st d request =
           (Inl (AuthenticationFailed ''Invalid token header. No credentials provided.''), st, d))
   \<and> (authenticate lib cfg net now1 now2 st d request \<noteq> (Inr None, st, d)
        \<and> authenticate lib cfg net now1 now2 st d request \<noteq>
           (Inl (AuthenticationFailed ''Invalid token header. No credentials provided.''), st, d)
      \<longrightarrow> (\<exists>scheme tokb. split (get_authorization_header request) = [scheme, tokb]
             \<and> lower scheme = ''bearer''))
   \<and> (split (get_authorization_header request) = [scheme, tokb] \<and> lower scheme = ''bearer''
        \<and> bytes_decode tokb = Inr token
      \<longrightarrow> authenticate lib cfg net now1 now2 st d request =
           (case authenticate_token lib cfg net now1 now2 st d token of
              (Inl e, st1, d1) \<Rightarrow> (Inl (authenticate_handler e), st1, d1)
            | (Inr r, st1, d1) \<Rightarrow> (Inr (Some r), st1, d1)))"
proof (intro conjI impI)
  assume "request = None"
  then show "authenticate lib cfg net now1 now2 st d request = (Inr None, st, d)"
    by (simp add: authenticate_def get_authorization_header_def split_def)
next
  assume "split (get_authorization_header request) = []
        \<or> lower (hd (split (get_authorization_header request))) \<noteq> ''bearer''"
  then show "authenticate lib cfg net now1 now2 st d request = (Inr None, st, d)"
    by (auto simp add: authenticate_def)
next
  assume "split (get_authorization_header request) \<noteq> []
        \<and> lower (hd (split (get_authorization_header request))) = ''bearer''
        \<and> length (split (get_authorization_header request)) \<noteq> 2"
  then show "authenticate lib cfg net now1 now2 st d request =
           (Inl (AuthenticationFailed ''Invalid token header. No credentials provided.''), st, d)"
    by (simp add: authenticate_def)
next
  assume a: "authenticate lib cfg net now1 now2 st d request \<noteq> (Inr None, st, d)
        \<and> authenticate lib cfg net now1 now2 st d request \<noteq>
           (Inl (AuthenticationFailed ''Invalid token header. No credentials provided.''), st, d)"
  let ?h = "split (get_authorization_header request)"
  from a have n: "?h \<noteq> []" and b: "lower (hd ?h) = ''bearer''"
    by (auto simp add: authenticate_def Let_def split: if_splits)
  from a n b have l: "length ?h = 2"
    by (auto simp add: authenticate_def Let_def split: if_splits)
  then obtain scheme tokb where s: "?h = [scheme, tokb]"
    by (cases ?h) (auto simp add: length_Suc_conv)
  with b show "\<exists>scheme tokb. ?h = [scheme, tokb] \<and> lower scheme = ''bearer''"
    by simp
next
  assume "split (get_authorization_header request) = [scheme, tokb] \<and> lower scheme = ''bearer''
        \<and> bytes_decode tokb = Inr token"
  then show "authenticate lib cfg net now1 now2 st d request =
           (case authenticate_token lib cfg net now1 now2 st d token of
              (Inl e, st1, d1) \<Rightarrow> (Inl (authenticate_handler e), st1, d1)
            | (Inr r, st1, d1) \<Rightarrow> (Inr (Some r), st1, d1))"
    by (simp add: authenticate_wellformed)
qed

theorem authenticate_header_state_machine_witness:
  "authenticate lib_example cfg_unset net_ok 1100 1101 cached_state db_old None =
     (Inr None, cached_state, db_old)
   \<and> authenticate lib_example cfg_unset net_ok 1100 1101 cached_state db_old
        (Some ''Basic dXNlcg=='') = (Inr None, cached_state, db_old)
   \<and> authenticate lib_example cfg_unset net_ok 1100 1101 cached_state db_old
        (Some ''BeArEr'') =
     (Inl (AuthenticationFailed ''Invalid token header. No credentials provided.''),
      cached_state, db_old)
   \<and> authenticate lib_example cfg_unset net_ok 1100 1101 cached_state db_old
        (Some ''bearer t1 t2'') =
     (Inl (AuthenticationFailed ''Invalid token header. No credentials provided.''),
      cached_state, db_old)
   \<and> authenticate lib_example cfg_unset net_ok 1100 1101 cached_state db_old
        (Some ''Bearer t1'') =
     (Inl (AuthenticationFailed ''Authentication failed: OIDC configuration incomplete''),
      cached_state, db_old)
   \<and> (\<exists>scheme tokb. split (get_authorization_header (Some ''Bearer t1'')) = [scheme, tokb]
         \<and> lower scheme = ''bearer'')"
proof -
  note sm = authenticate_header_state_machine [where lib = lib_example and cfg = cfg_unset
      and net = net_ok and ?now1.0 = 1100 and ?now2.0 = 1101 and st = cached_state
      and d = db_old]
  have a1: "authenticate lib_example cfg_unset net_ok 1100 1101 cached_state db_old None =
     (Inr None, cached_state, db_old)"
    using sm [where request = None, THEN conjunct1] by simp
  have a2: "authenticate lib_example cfg_unset net_ok 1100 1101 cached_state db_old
        (Some ''Basic dXNlcg=='') = (Inr None, cached_state, db_old)"
    using sm [where request = "Some ''Basic dXNlcg==''", THEN conjunct2, THEN conjunct1]
    by (simp add: split_examples lower_examples)
  have a3: "authenticate lib_example cfg_unset net_ok 1100 1101 cached_state db_old
        (Some ''BeArEr'') =
     (Inl (AuthenticationFailed ''Invalid token header. No credentials provided.''),
      cached_state, db_old)"
    using sm [where request = "Some ''BeArEr''", THEN conjunct2, THEN conjunct2,
        THEN conjunct1]
    by (simp add: split_examples lower_examples)
  have a4: "authenticate lib_example cfg_unset net_ok 1100 1101 cached_state db_old
        (Some ''bearer t1 t2'') =
     (Inl (AuthenticationFailed ''Invalid token header. No credentials provided.''),
      cached_state, db_old)"
    using sm [where request = "Some ''bearer t1 t2''", THEN conjunct2, THEN conjunct2,
        THEN conjunct1]
    by (simp add: split_examples lower_examples)
  have u: "falsy (OIDC_ISSUER cfg_unset) \<or> falsy (OIDC_AUDIENCE cfg_unset)"
    by (simp add: cfg_unset_def)
  have t: "authenticate_token lib_example cfg_unset net_ok 1100 1101 cached_state db_old ''t1'' =
      (Inl (AuthenticationFailed ''OIDC configuration incomplete''), cached_state, db_old)"
    by (rule authenticate_token_failure [OF validate_token_config [OF u]])
  have a5: "authenticate lib_example cfg_unset net_ok 1100 1101 cached_state db_old
        (Some ''Bearer t1'') =
     (Inl (AuthenticationFailed ''Authentication failed: OIDC configuration incomplete''),
      cached_state, db_old)"
    using sm [where request = "Some ''Bearer t1''" and scheme = "''Bearer''"
        and tokb = "''t1''" and token = "''t1''",
        THEN conjunct2, THEN conjunct2, THEN conjunct2, THEN conjunct2]
    by (simp add: split_bearer lower_bearer bytes_decode_tokens t
        authenticate_handler_AuthenticationFailed)
  have a6: "\<exists>scheme tokb. split (get_authorization_header (Some ''Bearer t1'')) = [scheme, tokb]
         \<and> lower scheme = ''bearer''"
    using sm [where request = "Some ''Bearer t1''",
        THEN conjunct2, THEN conjunct2, THEN conjunct2, THEN conjunct1] a5
    by simp
  from a1 a2 a3 a4 a5 a6 show ?thesis
    by blast
qed

lemma authenticate_rejected:
  assumes "split (get_authorization_header request) = [scheme, tokb]"
    "lower scheme = ''bearer''" "bytes_decode tokb = Inr token"
    "OIDC_ISSUER cfg = Some iss" "OIDC_AUDIENCE cfg = Some aud"
    "\<forall>k st1 payload. get_key_for_token lib cfg net now1 now2 st token = (Inr k, st1) \<longrightarrow>
       decode lib token k [''RS256''] aud iss \<noteq> Inr payload"
  shows "\<exists>m st1. authenticate lib cfg net now1 now2 st d request =
            (Inl (AuthenticationFailed m), st1, d)"
  using authenticate_outcome [OF assms(1-3), of lib cfg net now1 now2 st d]
proof
  assume "\<exists>k aud iss payload st1. OIDC_ISSUER cfg = Some iss \<and> OIDC_AUDIENCE cfg = Some aud
            \<and> get_key_for_token lib cfg net now1 now2 st token = (Inr k, st1)
            \<and> decode lib token k [''RS256''] aud iss = Inr payload"
  then obtain k payload st1
    where "get_key_for_token lib cfg net now1 now2 st token = (Inr k, st1)"
      "decode lib token k [''RS256''] aud iss = Inr payload"
    using assms(4) assms(5) by auto
  with assms(6) show ?thesis by blast
qed

text \<open>
  Claim C2. Take a well-formed bearer header and a configured issuer and audience, and
  a token for which python-jose returns no payload under whichever key is resolved, as
  it does for every token whose audience is not the configured one and for every token
  whose signature does not verify, whatever else is wrong with the token. Then
  \<^verbatim>\<open>authenticate\<close> raises AuthenticationFailed and the customer table is unchanged; it
  returns no pair. With the key resolved, a JWTClaimsError of the library that names
  the audience is reported as
  \<^verbatim>\<open>Authentication failed: Token audience invalid. Expected: <audience>\<close>, and a
  JWTError of the library as \<^verbatim>\<open>Authentication failed: Token validation failed: <message>\<close>.
\<close>

theorem authenticate_rejects_unverified:
  assumes "split (get_authorization_header request) = [scheme, tokb]"
    "lower scheme = ''bearer''" "bytes_decode tokb = Inr token"
    "OIDC_ISSUER cfg = Some iss" "OIDC_AUDIENCE cfg = Some aud"
    "\<forall>k st1 payload. get_key_for_token lib cfg net now1 now2 st token = (Inr k, st1) \<longrightarrow>
       decode lib token k [''RS256''] aud iss \<noteq> Inr payload"
  shows "(\<exists>m st1. authenticate lib cfg net now1 now2 st d request =
            (Inl (AuthenticationFailed m), st1, d))
       \<and> (\<forall>k st1 m. iss \<noteq> [] \<and> aud \<noteq> []
            \<and> get_key_for_token lib cfg net now1 now2 st token = (Inr k, st1)
            \<and> decode lib token k [''RS256''] aud iss = Inl (JWTClaimsError m)
            \<and> contains (lower m) ''audience''
          \<longrightarrow> authenticate lib cfg net now1 now2 st d request =
              (Inl (AuthenticationFailed
                 (''Authentication failed: Token audience invalid. Expected: '' @ aud)), st1, d))
       \<and> (\<forall>k st1 m. iss \<noteq> [] \<and> aud \<noteq> []
            \<and> get_key_for_token lib cfg net now1 now2 st token = (Inr k, st1)
            \<and> decode lib token k [''RS256''] aud iss = Inl (JWTError m)
          \<longrightarrow> authenticate lib cfg net now1 now2 st d request =
              (Inl (AuthenticationFailed
                 (''Authentication failed: Token validation failed: '' @ m)), st1, d))"
proof (intro conjI allI impI)
  show "\<exists>m st1. authenticate lib cfg net now1 now2 st d request =
            (Inl (AuthenticationFailed m), st1, d)"
    by (rule authenticate_rejected [OF assms])
next
  fix k st1 m
  assume "iss \<noteq> [] \<and> aud \<noteq> []
            \<and> get_key_for_token lib cfg net now1 now2 st token = (Inr k, st1)
            \<and> decode lib token k [''RS256''] aud iss = Inl (JWTClaimsError m)
            \<and> contains (lower m) ''audience''"
  then show "authenticate lib cfg net now1 now2 st d request =
              (Inl (AuthenticationFailed
                 (''Authentication failed: Token audience invalid. Expected: '' @ aud)), st1, d)"
    using authenticate_decode_failure [OF assms(1-4) _ assms(5), of lib net now1 now2 st k st1
        "JWTClaimsError m" "''Token audience invalid. Expected: '' @ aud" d]
    by simp
next
  fix k st1 m
  assume "iss \<noteq> [] \<and> aud \<noteq> []
            \<and> get_key_for_token lib cfg net now1 now2 st token = (Inr k, st1)
            \<and> decode lib token k [''RS256''] aud iss = Inl (JWTError m)"
  then show "authenticate lib cfg net now1 now2 st d request =
              (Inl (AuthenticationFailed
                 (''Authentication failed: Token validation failed: '' @ m)), st1, d)"
    using authenticate_decode_failure [OF assms(1-4) _ assms(5), of lib net now1 now2 st k st1
        "JWTError m" "''Token validation failed: '' @ m" d]
    by simp
qed

theorem authenticate_rejects_unverified_witness:
  "authenticate lib_example cfg_example net_ok 1100 1101 cached_state db_old
       (Some ''Bearer t3'') =
     (Inl (AuthenticationFailed
        ''Authentication failed: Token audience invalid. Expected: app1''), cached_state, db_old)
   \<and> authenticate lib_example cfg_example net_ok 1100 1101 cached_state db_old
       (Some ''Bearer t4'') =
     (Inl (AuthenticationFailed
        ''Authentication failed: Token validation failed: Signature verification failed.''),
      cached_state, db_old)
   \<and> (\<exists>m st1. authenticate lib_example cfg_example net_ok 1100 1101 cached_state db_old
       (Some ''Bearer t8'') = (Inl (AuthenticationFailed m), st1, db_old))"
proof -
  have h3: "\<forall>k st1 payload. get_key_for_token lib_example cfg_example net_ok 1100 1101
             cached_state ''t3'' = (Inr k, st1) \<longrightarrow>
       decode lib_example ''t3'' k [''RS256''] ''app1'' ''https://idp.example/'' \<noteq> Inr payload"
    by (simp add: get_key_tokens decode_tokens)
  have h4: "\<forall>k st1 payload. get_key_for_token lib_example cfg_example net_ok 1100 1101
             cached_state ''t4'' = (Inr k, st1) \<longrightarrow>
       decode lib_example ''t4'' k [''RS256''] ''app1'' ''https://idp.example/'' \<noteq> Inr payload"
    by (simp add: get_key_tokens decode_tokens)
  have h8: "\<forall>k st1 payload. get_key_for_token lib_example cfg_example net_ok 1100 1101
             cached_state ''t8'' = (Inr k, st1) \<longrightarrow>
       decode lib_example ''t8'' k [''RS256''] ''app1'' ''https://idp.example/'' \<noteq> Inr payload"
    by (simp add: get_key_tokens decode_tokens)
  have a: "contains (lower ''Invalid audience'') ''audience''"
    by (simp add: lower_def lower_char_def)
  note t3 = authenticate_rejects_unverified [OF split_bearer(2) lower_bearer
      bytes_decode_tokens(2) cfg_example_simps(1) cfg_example_simps(2) h3,
      where d = db_old]
  note t4 = authenticate_rejects_unverified [OF split_bearer(3) lower_bearer
      bytes_decode_tokens(3) cfg_example_simps(1) cfg_example_simps(2) h4,
      where d = db_old]
  note t8 = authenticate_rejects_unverified [OF split_bearer(4) lower_bearer
      bytes_decode_tokens(4) cfg_example_simps(1) cfg_example_simps(2) h8,
      where d = db_old]
  have "authenticate lib_example cfg_example net_ok 1100 1101 cached_state db_old
       (Some ''Bearer t3'') =
     (Inl (AuthenticationFailed
        (''Authentication failed: Token audience invalid. Expected: '' @ ''app1'')),
      cached_state, db_old)"
    using t3 [THEN conjunct2, THEN conjunct1, THEN spec, THEN spec, THEN spec, THEN mp,
        of "''P''" cached_state "''Invalid audience''"]
      get_key_tokens(2) decode_tokens(2) a not_empty_example
    by blast
  moreover have "authenticate lib_example cfg_example net_ok 1100 1101 cached_state db_old
       (Some ''Bearer t4'') =
     (Inl (AuthenticationFailed
        (''Authentication failed: Token validation failed: ''
           @ ''Signature verification failed.'')),
      cached_state, db_old)"
    using t4 [THEN conjunct2, THEN conjunct2, THEN spec, THEN spec, THEN spec, THEN mp,
        of "''P''" cached_state "''Signature verification failed.''"]
      get_key_tokens(3) decode_tokens(3) not_empty_example
    by blast
  moreover note t8 [THEN conjunct1]
  ultimately show ?thesis
    by simp
qed

text \<open>
  Claim C3, as the code has it. The token \<^verbatim>\<open>t9\<close> is expired and is signed by another
  key than the one its header names. Its failure is not reported by the expiry branch:
  the library checks the signature before the expiry, and \<^verbatim>\<open>authenticate\<close> raises
  AuthenticationFailed with the reason of the signature.
\<close>

theorem authenticate_expired_counterexample:
  "map_of tokens_example ''t9'' =
     Some \<lparr>t_header = header_k1, t_payload = payload_u1, t_signer = ''Q'', t_expired = True\<rparr>
   \<and> authenticate lib_example cfg_example net_ok 1100 1101 cached_state db_old
       (Some ''Bearer t9'') =
     (Inl (AuthenticationFailed
        ''Authentication failed: Token validation failed: Signature verification failed.''),
      cached_state, db_old)"
proof -
  have "authenticate lib_example cfg_example net_ok 1100 1101 cached_state db_old
       (Some ''Bearer t9'') =
     (Inl (AuthenticationFailed (''Authentication failed: ''
        @ ''Token validation failed: Signature verification failed.'')), cached_state, db_old)"
    by (rule authenticate_decode_failure [OF split_bearer(6) lower_bearer
          bytes_decode_tokens(6) cfg_example_simps(1) not_empty_example(1)
          cfg_example_simps(2) not_empty_example(2) get_key_tokens(6) decode_tokens(6)])
       simp
  then show ?thesis
    by (simp add: tokens_example_def)
qed

text \<open>
  Claim C3, amended. Take a well-formed bearer header and a configured issuer and
  audience, and a token for which python-jose returns no payload under whichever key
  is resolved, as it does for every token whose expiry lies in the past. Then
  \<^verbatim>\<open>authenticate\<close> raises AuthenticationFailed and the customer table is unchanged; it
  returns no pair. When the key is resolved and the library reports the expiry (an
  ExpiredSignatureError), the failure is the one of the expiry branch,
  \<^verbatim>\<open>Authentication failed: Token has expired\<close>.
\<close>

theorem authenticate_rejects_expired:
  assumes "split (get_authorization_header request) = [scheme, tokb]"
    "lower scheme = ''bearer''" "bytes_decode tokb = Inr token"
    "OIDC_ISSUER cfg = Some iss" "OIDC_AUDIENCE cfg = Some aud"
    "\<forall>k st1 payload. get_key_for_token lib cfg net now1 now2 st token = (Inr k, st1) \<longrightarrow>
       decode lib token k [''RS256''] aud iss \<noteq> Inr payload"
  shows "(\<exists>m st1. authenticate lib cfg net now1 now2 st d request =
            (Inl (AuthenticationFailed m), st1, d))
       \<and> (\<forall>k st1 m. iss \<noteq> [] \<and> aud \<noteq> []
            \<and> get_key_for_token lib cfg net now1 now2 st token = (Inr k, st1)
            \<and> decode lib token k [''RS256''] aud iss = Inl (ExpiredSignatureError m)
          \<longrightarrow> authenticate lib cfg net now1 now2 st d request =
              (Inl (AuthenticationFailed ''Authentication failed: Token has expired''), st1, d))"
proof (intro conjI allI impI)
  show "\<exists>m st1. authenticate lib cfg net now1 now2 st d request =
            (Inl (AuthenticationFailed m), st1, d)"
    by (rule authenticate_rejected [OF assms])
next
  fix k st1 m
  assume "iss \<noteq> [] \<and> aud \<noteq> []
            \<and> get_key_for_token lib cfg net now1 now2 st token = (Inr k, st1)
            \<and> decode lib token k [''RS256''] aud iss = Inl (ExpiredSignatureError m)"
  then show "authenticate lib cfg net now1 now2 st d request =
              (Inl (AuthenticationFailed ''Authentication failed: Token has expired''), st1, d)"
    using authenticate_decode_failure [OF assms(1-4) _ assms(5), of lib net now1 now2 st k st1
        "ExpiredSignatureError m" "''Token has expired''" d]
    by simp
qed

theorem authenticate_rejects_expired_witness:
  "authenticate lib_example cfg_example net_ok 1100 1101 cached_state db_old
       (Some ''Bearer t2'') =
     (Inl (AuthenticationFailed ''Authentication failed: Token has expired''),
      cached_state, db_old)
   \<and> (\<exists>m st1. authenticate lib_example cfg_example net_ok 1100 1101 cached_state db_old
       (Some ''Bearer t9'') = (Inl (AuthenticationFailed m), st1, db_old))"
proof -
  have h2: "\<forall>k st1 payload. get_key_for_token lib_example cfg_example net_ok 1100 1101
             cached_state ''t2'' = (Inr k, st1) \<longrightarrow>
       decode lib_example ''t2'' k [''RS256''] ''app1'' ''https://idp.example/'' \<noteq> Inr payload"
    by (simp add: get_key_tokens decode_tokens)
  have h9: "\<forall>k st1 payload. get_key_for_token lib_example cfg_example net_ok 1100 1101
             cached_state ''t9'' = (Inr k, st1) \<longrightarrow>
       decode lib_example ''t9'' k [''RS256''] ''app1'' ''https://idp.example/'' \<noteq> Inr payload"
    by (simp add: get_key_tokens decode_tokens)
  note t2 = authenticate_rejects_expired [OF split_bearer(5) lower_bearer
      bytes_decode_tokens(5) cfg_example_simps(1) cfg_example_simps(2) h2,
      where d = db_old]
  note t9 = authenticate_rejects_expired [OF split_bearer(6) lower_bearer
      bytes_decode_tokens(6) cfg_example_simps(1) cfg_example_simps(2) h9,
      where d = db_old]
  have "authenticate lib_example cfg_example net_ok 1100 1101 cached_state db_old
       (Some ''Bearer t2'') =
     (Inl (AuthenticationFailed ''Authentication failed: Token has expired''),
      cached_state, db_old)"
    using t2 [THEN conjunct2, THEN spec, THEN spec, THEN spec, THEN mp,
        of "''P''" cached_state "''Signature has expired.''"]
      get_key_tokens(5) decode_tokens(5) not_empty_example
    by blast
  moreover note t9 [THEN conjunct1]
  ultimately show ?thesis
    by simp
qed

lemma reconcile_null_claim:
  "reconcile empty_db (JString ''u2'') payload_u2 = Inl (IntegrityError ''first_name'')"
  by (simp add: reconcile_def get_or_create_def empty_db_def payload_u2_def get_default_def
      insert_row_def Let_def)

text \<open>
  Claim C1, at a token the claim covers. The token \<^verbatim>\<open>t11\<close> is well formed, its key
  id is in the cached key set, the library accepts it under that key with the
  configured audience and issuer, and its \<^verbatim>\<open>sub\<close> is \<^verbatim>\<open>u2\<close>; its \<^verbatim>\<open>given_name\<close> member
  is null, and no customer \<^verbatim>\<open>u2\<close> exists. The default of \<^verbatim>\<open>payload.get('given_name', '')\<close>
  does not replace the null, the INSERT violates the NOT NULL constraint of
  \<^verbatim>\<open>first_name\<close>, and \<^verbatim>\<open>authenticate\<close> raises AuthenticationFailed instead of returning
  the identity; nothing is inserted.
\<close>

theorem authenticate_null_claim_fails:
  "get_key_for_token lib_example cfg_example net_ok 1100 1101 cached_state ''t11'' =
     (Inr ''P'', cached_state)
   \<and> decode lib_example ''t11'' ''P'' [''RS256''] ''app1'' ''https://idp.example/'' =
     Inr payload_u2
   \<and> get payload_u2 ''sub'' = JString ''u2''
   \<and> authenticate lib_example cfg_example net_ok 1100 1101 cached_state empty_db
       (Some ''Bearer t11'') =
     (Inl (AuthenticationFailed
        ''Authentication failed: NOT NULL constraint failed: store_customer.first_name''),
      cached_state, empty_db)"
proof -
  have s: "get payload_u2 ''sub'' = JString ''u2''"
    by (simp add: get_def payload_u2_def)
  have v: "validate_token lib_example cfg_example net_ok 1100 1101 cached_state ''t11'' =
      (Inr payload_u2, cached_state)"
    by (simp add: validate_token_resolved [OF cfg_example_simps(1) not_empty_example(1)
          cfg_example_simps(2) not_empty_example(2) get_key_tokens(7)] decode_tokens)
  have "authenticate_token lib_example cfg_example net_ok 1100 1101 cached_state empty_db
      ''t11'' = (Inl (IntegrityError ''first_name''), cached_state, empty_db)"
    by (rule authenticate_token_storage_failure [OF v]) (simp_all add: s reconcile_null_claim)
  then have "authenticate lib_example cfg_example net_ok 1100 1101 cached_state empty_db
       (Some ''Bearer t11'') =
     (Inl (authenticate_handler (IntegrityError ''first_name'')), cached_state, empty_db)"
    by (simp add: authenticate_wellformed [OF split_bearer(7) lower_bearer
          bytes_decode_tokens(7)])
  then show ?thesis
    by (simp add: s get_key_tokens decode_tokens IntegrityError_def authenticate_handler_def)
qed

subsection \<open>Reconciliation\<close>

lemma update_profile_eq:
  "update_profile c payload =
     (c\<lparr>first_name := (if truthy (get payload ''given_name'')
                          \<and> first_name c \<noteq> get payload ''given_name''
                        then get payload ''given_name'' else first_name c),
        last_name := (if truthy (get payload ''family_name'')
                          \<and> last_name c \<noteq> get payload ''family_name''
                        then get payload ''family_name'' else last_name c),
        email := (if truthy (get payload ''email'') \<and> email c \<noteq> get payload ''email''
                        then get payload ''email'' else email c),
        phone := (if truthy (get payload ''phone_number'')
                          \<and> phone c \<noteq> get payload ''phone_number''
                        then get payload ''phone_number'' else phone c)\<rparr>,
      (if truthy (get payload ''given_name'') \<and> first_name c \<noteq> get payload ''given_name''
       then [First_name] else [])
      @ (if truthy (get payload ''family_name'') \<and> last_name c \<noteq> get payload ''family_name''
         then [Last_name] else [])
      @ (if truthy (get payload ''email'') \<and> email c \<noteq> get payload ''email''
         then [Email] else [])
      @ (if truthy (get payload ''phone_number'') \<and> phone c \<noteq> get payload ''phone_number''
         then [Phone] else []))"
  by (auto simp add: update_profile_def Let_def)

lemma update_profile_fields:
  "snd (update_profile (load r) payload) = changed_fields r payload"
  by (simp add: update_profile_eq changed_fields_def load_def)


lemma update_profile_external_id:
  "external_id (fst (update_profile c payload)) = external_id c"
  "address (fst (update_profile c payload)) = address c"
  by (simp_all add: update_profile_eq)

lemma changed_fields_iff:
  "f \<in> set (changed_fields r payload) \<longleftrightarrow>
     f \<noteq> Address \<and> truthy (claim_of payload f) \<and> stored r f \<noteq> claim_of payload f"
  by (cases f) (simp_all add: changed_fields_def del: filter.simps)


lemma changed_fields_truthy:
  "f \<in> set (changed_fields r payload) \<Longrightarrow> truthy (claim_of payload f)"
  by (simp add: changed_fields_iff)

lemma truthy_to_python: "truthy v \<Longrightarrow> to_python v \<noteq> None"
  by (cases v) simp_all

lemma value_of_update_profile:
  "f \<in> set (changed_fields r payload) \<Longrightarrow>
   value_of (fst (update_profile (load r) payload)) f = to_python (claim_of payload f)"
  by (cases f) (simp_all add: changed_fields_iff update_profile_eq load_def)

lemma fold_set_field_external_id:
  "external_id (fold (set_field obj) fs x) = external_id x"
proof (induction fs arbitrary: x)
  case Nil
  show ?case by simp
next
  case (Cons a fs)
  show ?case
    by (cases a) (simp_all add: Cons.IH split: option.splits)
qed




lemma find_external_id:
  assumes "find (\<lambda>x. Some (external_id x) = to_python sub) (rows d) = Some r"
  shows "to_python sub = Some (external_id r)"
  using assms by (auto simp add: find_Some_iff)

lemma get_or_create_hit:
  "find (\<lambda>x. Some (external_id x) = to_python sub) (rows d) = Some r \<Longrightarrow>
   get_or_create d sub payload = Inr ((load r, False), d)"
  by (simp add: get_or_create_def)

lemma save_update_profile:
  assumes "find (\<lambda>x. Some (external_id x) = to_python sub) (rows d) = Some r"
  shows "save d (fst (update_profile (load r) payload)) (changed_fields r payload) =
     Inr (d\<lparr>rows := map (\<lambda>x. if external_id x = external_id r
                               then fold (set_field (fst (update_profile (load r) payload)))
                                      (changed_fields r payload) x
                               else x) (rows d),
            writes := writes d @ [Update (external_id r) (changed_fields r payload)]\<rparr>)"
proof -
  let ?obj = "fst (update_profile (load r) payload)"
  have n: "find (\<lambda>f. f \<noteq> Address \<and> value_of ?obj f = None) (changed_fields r payload) = None"
    by (auto simp add: find_None_iff value_of_update_profile
        dest!: changed_fields_truthy truthy_to_python)
  have e: "to_python (external_id ?obj) = Some (external_id r)"
    by (simp add: update_profile_external_id load_def)
  have f: "find (\<lambda>x. external_id x = external_id r) (rows d) = Some r"
    using assms by (simp add: find_external_id [OF assms])
  show ?thesis
    by (simp add: save_def n e f)
qed

lemma reconcile_existing:
  assumes "find (\<lambda>x. Some (external_id x) = to_python sub) (rows d) = Some r"
  shows "reconcile d sub payload =
     Inr (fst (update_profile (load r) payload),
          if changed_fields r payload = [] then d
          else d\<lparr>rows := map (\<lambda>x. if external_id x = external_id r
                               then fold (set_field (fst (update_profile (load r) payload)))
                                      (changed_fields r payload) x
                               else x) (rows d),
                 writes := writes d @ [Update (external_id r) (changed_fields r payload)]\<rparr>)"
proof -
  obtain c fs where u: "update_profile (load r) payload = (c, fs)"
    by (cases "update_profile (load r) payload")
  then have fs: "fs = changed_fields r payload" and c: "c = fst (update_profile (load r) payload)"
    using update_profile_fields [of r payload] by simp_all
  show ?thesis
    using save_update_profile [OF assms, of payload]
    by (simp add: reconcile_def get_or_create_hit [OF assms] u fs [symmetric] c [symmetric])
qed








lemma updated_row:
  "external_id (if external_id x = e then fold (set_field obj) fs x else x) = external_id x"
  by (simp add: fold_set_field_external_id)





lemma changed_fields_db_old:
  "changed_fields customer_old payload_u1 = [First_name]"
  by (simp add: changed_fields_def customer_old_def payload_u1_def get_def)



lemma get_default_not_null:
  "map_of payload k \<noteq> Some JNull \<Longrightarrow> to_python (get_default payload k) \<noteq> None"
  by (cases "map_of payload k"; cases "get_default payload k")
     (simp_all add: get_default_def)

lemma reconcile_new:
  assumes "find (\<lambda>x. Some (external_id x) = to_python sub) (rows d) = None"
    "to_python sub \<noteq> None"
    "\<forall>k \<in> {''given_name'', ''family_name'', ''email'', ''phone_number''}.
       map_of payload k \<noteq> Some JNull"
  shows "\<exists>c d1. reconcile d sub payload = Inr (c, d1) \<and> external_id c = sub"
proof -
  obtain x where x: "to_python sub = Some x"
    using assms(2) by auto
  obtain f where f: "to_python (get_default payload ''given_name'') = Some f"
    using get_default_not_null [of payload "''given_name''"] assms(3) by auto
  obtain l where l: "to_python (get_default payload ''family_name'') = Some l"
    using get_default_not_null [of payload "''family_name''"] assms(3) by auto
  obtain e where e: "to_python (get_default payload ''email'') = Some e"
    using get_default_not_null [of payload "''email''"] assms(3) by auto
  obtain p where p: "to_python (get_default payload ''phone_number'') = Some p"
    using get_default_not_null [of payload "''phone_number''"] assms(3) by auto
  from assms(1) x have n: "find (\<lambda>r. external_id r = x) (rows d) = None"
    by simp
  show ?thesis
    by (simp add: reconcile_def get_or_create_def n insert_row_def Let_def x f l e p)
qed

lemma reconcile_succeeds:
  assumes "to_python sub \<noteq> None"
    "(\<exists>r \<in> set (rows d). Some (external_id r) = to_python sub)
     \<or> (\<forall>k \<in> {''given_name'', ''family_name'', ''email'', ''phone_number''}.
          map_of payload k \<noteq> Some JNull)"
  shows "\<exists>c d1. reconcile d sub payload = Inr (c, d1)
           \<and> to_python (external_id c) = to_python sub"
proof (cases "find (\<lambda>x. Some (external_id x) = to_python sub) (rows d)")
  case None
  then have "\<not> (\<exists>r \<in> set (rows d). Some (external_id r) = to_python sub)"
    by (simp add: find_None_iff)
  with assms(2) have "\<forall>k \<in> {''given_name'', ''family_name'', ''email'', ''phone_number''}.
          map_of payload k \<noteq> Some JNull"
    by blast
  from reconcile_new [OF None assms(1) this] show ?thesis
    by auto
next
  case (Some r)
  show ?thesis
    by (simp add: reconcile_existing [OF Some] update_profile_external_id load_def
        find_external_id [OF Some])
qed

text \<open>
  When no profile claim of an accepted token is null, or its customer exists already,
  \<^verbatim>\<open>authenticate\<close> returns the customer and the presented token, and the customer's
  \<open>external_id\<close> is the token's \<^verbatim>\<open>sub\<close>.
\<close>

lemma authenticate_valid_token:
  assumes "split (get_authorization_header request) = [scheme, tokb]"
    "lower scheme = ''bearer''" "bytes_decode tokb = Inr token"
    "OIDC_ISSUER cfg = Some iss" "iss \<noteq> []" "OIDC_AUDIENCE cfg = Some aud" "aud \<noteq> []"
    "get_unverified_header lib token = Inr headers"
    "map_of headers ''kid'' = Some kid" "kid \<noteq> []"
    "get_jwks cfg net now1 st = (Inr (Some ks), st1)"
    "find_key lib kid ks = Some (Inr k)"
    "decode lib token k [''RS256''] aud iss = Inr payload"
    "get payload ''sub'' = JString sub" "sub \<noteq> []"
    "(\<exists>r \<in> set (rows d). external_id r = sub)
     \<or> (\<forall>k \<in> {''given_name'', ''family_name'', ''email'', ''phone_number''}.
          map_of payload k \<noteq> Some JNull)"
  shows "\<exists>c d1. authenticate lib cfg net now1 now2 st d request = (Inr (Some (c, token)), st1, d1)
           \<and> external_id c = JString sub
           \<and> reconcile d (JString sub) payload = Inr (c, d1)"
proof -
  have h: "header_kid lib token = Inr kid"
    using assms(8-10) by (rule header_kid_present)
  have k: "get_key_for_token lib cfg net now1 now2 st token = (Inr k, st1)"
    by (rule get_key_found [OF h assms(11) assms(12)])
  have v: "validate_token lib cfg net now1 now2 st token = (Inr payload, st1)"
    using assms(4-7) k assms(13) by (simp add: validate_token_resolved)
  have t: "truthy (get payload ''sub'')"
    using assms(14,15) by simp
  have "\<exists>c d1. reconcile d (JString sub) payload = Inr (c, d1)
           \<and> to_python (external_id c) = to_python (JString sub)"
    by (rule reconcile_succeeds) (use assms(16) in simp_all)
  then obtain c d1 where r: "reconcile d (JString sub) payload = Inr (c, d1)"
    and e: "to_python (external_id c) = Some sub"
    by auto
  have e': "external_id c = JString sub"
  proof (cases "find (\<lambda>x. Some (external_id x) = to_python (JString sub)) (rows d)")
    case None
    then have "\<not> (\<exists>r \<in> set (rows d). external_id r = sub)"
      by (auto simp add: find_None_iff)
    with assms(16) have "\<forall>k \<in> {''given_name'', ''family_name'', ''email'', ''phone_number''}.
          map_of payload k \<noteq> Some JNull"
      by blast
    from reconcile_new [OF None _ this] r show ?thesis
      by auto
  next
    case (Some x)
    then have x: "external_id x = sub"
      by (auto simp add: find_Some_iff)
    from r have "c = fst (update_profile (load x) payload)"
      by (simp add: reconcile_existing [OF Some])
    then have "external_id c = external_id (load x)"
      by (simp only: update_profile_external_id)
    then show ?thesis
      by (simp add: load_def x)
  qed
  have a: "authenticate_token lib cfg net now1 now2 st d token = (Inr (c, token), st1, d1)"
    by (rule authenticate_token_accept [OF v t]) (simp add: assms(14) r)
  have "authenticate lib cfg net now1 now2 st d request = (Inr (Some (c, token)), st1, d1)"
    by (simp add: authenticate_wellformed [OF assms(1-3)] a)
  with e' r show ?thesis
    by blast
qed




end
